theory Spec2Isabelle
  imports Main "HOL-Library.Sublist" "HOL-Library.AList"
begin

section \<open>Python strings\<close>

text \<open>
  A Python \<open>str\<close> is modelled as a \<open>string\<close>: one \<open>char\<close> per code point, for the
  code points below 256. \<open>a + b\<close> and an f-string are \<open>@\<close>; \<open>sub in s\<close> is the
  substring test \<open>sublist sub s\<close>; \<open>s.endswith(t)\<close> is \<open>suffix t s\<close>.
\<close>

definition str_in :: "string \<Rightarrow> string \<Rightarrow> bool" where
  "str_in sub s = sublist sub s"

text \<open>
  \<open>s.split(sep)\<close> for a non-empty separator: the text is scanned from the left, cut at
  each occurrence of \<open>sep\<close>, and the scan goes on behind the occurrence. (An empty
  separator raises ValueError in Python; the source only splits at a literal.) The
  result is never empty, so \<open>[-1]\<close> is \<open>last\<close>.
\<close>

function split_from :: "string \<Rightarrow> string \<Rightarrow> string \<Rightarrow> string list" where
  "split_from sep cur [] = [cur]"
| "split_from sep cur (c # cs) =
     (if sep \<noteq> [] \<and> prefix sep (c # cs)
      then cur # split_from sep [] (drop (length sep) (c # cs))
      else split_from sep (cur @ [c]) cs)"
  by pat_completeness auto
termination
  by (relation "measure (\<lambda>(sep, cur, s). length s)") auto

definition str_split :: "string \<Rightarrow> string \<Rightarrow> string list" where
  "str_split sep s = split_from sep [] s"

text \<open>
  A separator overlaps itself when a copy of it can start inside it; a separator with no
  such overlap has its occurrences apart from each other.
\<close>

definition no_overlap :: "string \<Rightarrow> bool" where
  "no_overlap sep =
     (\<forall>j rest. 0 < j \<and> j < length sep \<longrightarrow> \<not> prefix sep (drop j sep @ rest))"

text \<open>
  \<open>s.strip()\<close> removes the leading and trailing whitespace; of the code points below
  256, \<open>str.isspace\<close> holds for 9 to 13, 28 to 32, 133 and 160.
\<close>

definition is_space :: "char \<Rightarrow> bool" where
  "is_space c =
     (let n = (of_char c :: nat)
      in (9 \<le> n \<and> n \<le> 13) \<or> (28 \<le> n \<and> n \<le> 32) \<or> n = 133 \<or> n = 160)"

definition str_strip :: "string \<Rightarrow> string" where
  "str_strip s = rev (dropWhile is_space (rev (dropWhile is_space s)))"

text \<open>\<open>str(n)\<close> for an integer: its decimal digits, with a minus sign below zero.\<close>

definition digit_char :: "nat \<Rightarrow> char" where
  "digit_char d = char_of (48 + d)"

function str_nat :: "nat \<Rightarrow> string" where
  "str_nat n = (if n < 10 then [digit_char n] else str_nat (n div 10) @ [digit_char (n mod 10)])"
  by pat_completeness auto
termination
  by (relation "measure (\<lambda>n. n)") auto

declare str_nat.simps [simp del]

definition str_int :: "int \<Rightarrow> string" where
  "str_int i = (if i < 0 then ''-'' @ str_nat (nat (- i)) else str_nat (nat i))"

text \<open>
  \<open>repr\<close> of a string and of a list of strings, which \<open>'%s' % cmd\<close> prints for an
  argument vector. The quote is \<open>"\<close> when the text holds \<open>'\<close> and no \<open>"\<close>, and
  \<open>'\<close> otherwise; the backslash and the quote are escaped, tab, newline and carriage
  return are written \<open>\t\<close>, \<open>\n\<close>, \<open>\r\<close>, and any other code point that is not printable is
  written \<open>\xhh\<close>.
\<close>

definition hex_digit :: "nat \<Rightarrow> char" where
  "hex_digit d = (if d < 10 then char_of (48 + d) else char_of (87 + d))"

definition printable :: "char \<Rightarrow> bool" where
  "printable c =
     (let n = (of_char c :: nat)
      in (32 \<le> n \<and> n \<le> 126) \<or> (161 \<le> n \<and> n \<noteq> 173))"

definition repr_char :: "char \<Rightarrow> char \<Rightarrow> string" where
  "repr_char quote c =
     (if c = CHR 0x5C then [CHR 0x5C, CHR 0x5C]
      else if c = quote then [CHR 0x5C, quote]
      else if c = CHR 0x09 then [CHR 0x5C, CHR ''t'']
      else if c = CHR 0x0A then [CHR 0x5C, CHR ''n'']
      else if c = CHR 0x0D then [CHR 0x5C, CHR ''r'']
      else if printable c then [c]
      else [CHR 0x5C, CHR ''x'', hex_digit (of_char c div 16), hex_digit (of_char c mod 16)])"

definition str_repr :: "string \<Rightarrow> string" where
  "str_repr s =
     (let quote = (if CHR 0x27 \<in> set s \<and> CHR 0x22 \<notin> set s then CHR 0x22 else CHR 0x27)
      in [quote] @ concat (map (repr_char quote) s) @ [quote])"

fun join_with :: "string \<Rightarrow> string list \<Rightarrow> string" where
  "join_with sep [] = []"
| "join_with sep [x] = x"
| "join_with sep (x # y # ys) = x @ sep @ join_with sep (y # ys)"

definition list_repr :: "string list \<Rightarrow> string" where
  "list_repr xs = ''['' @ join_with '', '' (map str_repr xs) @ '']''"

text \<open>\<open>os.path.join(a, b)\<close> with the POSIX separator.\<close>

definition path_join :: "string \<Rightarrow> string \<Rightarrow> string" where
  "path_join a b =
     (if prefix ''/'' b then b
      else if a = [] \<or> suffix ''/'' a then a @ b
      else a @ ''/'' @ b)"

section \<open>Exceptions\<close>

text \<open>
  A raised exception is a value; a function that can raise returns \<open>exn + 'a\<close>, with
  \<open>Inl\<close> for the exception. The argument is the exception's message (for KeyError,
  the missing key).
\<close>

datatype exn =
    ValueError string
  | RuntimeError string
  | KeyError string
  | IndexError
  | TypeError
  | OSError string
  | UnicodeDecodeError string

section \<open>Python values\<close>

text \<open>
  The values that \<open>json.load\<close> returns, which is what \<open>self.registry\<close> holds: \<open>None\<close>, a
  bool, an int, a float (kept as the text that \<open>repr\<close> prints for it), a string, a list,
  or a dictionary with string keys, its items in insertion order. Nothing in the code
  checks the shape of the registry, so the operations on it are those of Python on any
  such value, with the exceptions they raise (the message of a \<open>TypeError\<close> depends on
  the interpreter version and is not kept).
\<close>

datatype json =
    JNull
  | JBool bool
  | JInt int
  | JFloat string
  | JString string
  | JArray "json list"
  | JObject "(string \<times> json) list"

text \<open>\<open>obj[key]\<close> for a string key.\<close>

definition py_getitem :: "json \<Rightarrow> string \<Rightarrow> exn + json" where
  "py_getitem obj key =
     (case obj of
        JObject kvs \<Rightarrow> (case map_of kvs key of Some v \<Rightarrow> Inr v | None \<Rightarrow> Inl (KeyError key))
      | _ \<Rightarrow> Inl TypeError)"

text \<open>
  \<open>key in obj\<close> for a string key: a key of a dictionary, an element of a list, a
  substring of a string; any other value is not iterable.
\<close>

definition py_contains :: "json \<Rightarrow> string \<Rightarrow> exn + bool" where
  "py_contains obj key =
     (case obj of
        JObject kvs \<Rightarrow> Inr (map_of kvs key \<noteq> None)
      | JArray xs \<Rightarrow> Inr (JString key \<in> set xs)
      | JString t \<Rightarrow> Inr (str_in key t)
      | _ \<Rightarrow> Inl TypeError)"

text \<open>
  \<open>obj[key] = v\<close> and \<open>del obj[key]\<close> for a string key; the result is the object after the
  statement. A dictionary keeps the place of a key it has and puts a new key last.
\<close>

definition py_setitem :: "json \<Rightarrow> string \<Rightarrow> json \<Rightarrow> exn + json" where
  "py_setitem obj key v =
     (case obj of
        JObject kvs \<Rightarrow> Inr (JObject (AList.update key v kvs))
      | _ \<Rightarrow> Inl TypeError)"

definition py_delitem :: "json \<Rightarrow> string \<Rightarrow> exn + json" where
  "py_delitem obj key =
     (case obj of
        JObject kvs \<Rightarrow>
          (case map_of kvs key of
             Some v \<Rightarrow> Inr (JObject (AList.delete key kvs))
           | None \<Rightarrow> Inl (KeyError key))
      | _ \<Rightarrow> Inl TypeError)"

text \<open>\<open>repr(v)\<close>, \<open>str(v)\<close> (what an f-string prints) and \<open>type(v).__name__\<close>.\<close>

fun py_repr :: "json \<Rightarrow> string" where
  "py_repr JNull = ''None''"
| "py_repr (JBool b) = (if b then ''True'' else ''False'')"
| "py_repr (JInt i) = str_int i"
| "py_repr (JFloat t) = t"
| "py_repr (JString t) = str_repr t"
| "py_repr (JArray xs) = ''['' @ join_with '', '' (map py_repr xs) @ '']''"
| "py_repr (JObject kvs) =
     ''{'' @ join_with '', '' (map (\<lambda>kv. str_repr (fst kv) @ '': '' @ py_repr (snd kv)) kvs) @ ''}''"

definition py_str :: "json \<Rightarrow> string" where
  "py_str v = (case v of JString t \<Rightarrow> t | _ \<Rightarrow> py_repr v)"

definition type_name :: "json \<Rightarrow> string" where
  "type_name v =
     (case v of
        JNull \<Rightarrow> ''NoneType''
      | JBool b \<Rightarrow> ''bool''
      | JInt i \<Rightarrow> ''int''
      | JFloat t \<Rightarrow> ''float''
      | JString t \<Rightarrow> ''str''
      | JArray xs \<Rightarrow> ''list''
      | JObject kvs \<Rightarrow> ''dict'')"

section \<open>Chat session formatter: the prompt (inference.py)\<close>

text \<open>
  A message is the dictionary \<open>{"role": ..., "content": ...}\<close>; both functions read
  exactly these two keys.
\<close>

record chat_message =
  role :: string
  content :: string

text \<open>
  The body of the loop \<open>for message in messages\<close>: one block is appended for a
  message whose role is one of the three known strings, and nothing for any other role.
  \<open>chat_completion\<close> (lines 311 to 320) and \<open>stream_chat_completion\<close> (lines 377 to
  386) hold the same text of it.
\<close>

definition append_message :: "string \<Rightarrow> chat_message \<Rightarrow> string" where
  "append_message prompt message =
     (if role message = ''system''
        then prompt @ ''System: '' @ content message @ ''\<newline>\<newline>''
      else if role message = ''user''
        then prompt @ ''User: '' @ content message @ ''\<newline>\<newline>''
      else if role message = ''assistant''
        then prompt @ ''Assistant: '' @ content message @ ''\<newline>\<newline>''
      else prompt)"

text \<open>
  \<open>chat_completion\<close>, lines 310 to 323: the prompt starts empty, the loop runs over the
  messages in order, and the cue \<open>"Assistant: "\<close> is appended after it.
\<close>

definition chat_completion_prompt :: "chat_message list \<Rightarrow> string" where
  "chat_completion_prompt messages = foldl append_message [] messages @ ''Assistant: ''"

text \<open>\<open>stream_chat_completion\<close>, lines 376 to 389.\<close>

definition stream_chat_completion_prompt :: "chat_message list \<Rightarrow> string" where
  "stream_chat_completion_prompt messages = foldl append_message [] messages @ ''Assistant: ''"

subsection \<open>The template as the specification words it\<close>

text \<open>
  The specification's template: the role label is the role with its first letter in
  upper case, each message is \<open>"<Role>: <content>\n\n"\<close>, and the cue follows.
\<close>

definition upper_char :: "char \<Rightarrow> char" where
  "upper_char c =
     (if (97::nat) \<le> of_char c \<and> of_char c \<le> (122::nat)
      then char_of (of_char c - (32::nat)) else c)"

definition capitalized :: "string \<Rightarrow> string" where
  "capitalized s = (case s of [] \<Rightarrow> [] | c # cs \<Rightarrow> upper_char c # cs)"

definition spec_message_block :: "chat_message \<Rightarrow> string" where
  "spec_message_block m = capitalized (role m) @ '': '' @ content m @ ''\<newline>\<newline>''"

definition spec_format_prompt :: "chat_message list \<Rightarrow> string" where
  "spec_format_prompt messages = concat (map spec_message_block messages) @ ''Assistant: ''"

definition known_role :: "string \<Rightarrow> bool" where
  "known_role r = (r = ''system'' \<or> r = ''user'' \<or> r = ''assistant'')"

section \<open>Configuration (config.py)\<close>

definition SUPPORTED_QUANT_TYPES :: "(string \<times> string list) list" where
  "SUPPORTED_QUANT_TYPES =
     [(''arm64'', [''i2_s'', ''tl1'']),
      (''x86_64'', [''i2_s'', ''tl2''])]"

record catalog_entry =
  entry_model_name :: string
  entry_description :: string

definition SUPPORTED_MODELS :: "(string \<times> catalog_entry) list" where
  "SUPPORTED_MODELS =
     [(''microsoft/BitNet-b1.58-2B-4T'',
        \<lparr>entry_model_name = ''BitNet-b1.58-2B-4T'',
         entry_description = ''Official BitNet 2B parameter model (4T tokens)''\<rparr>),
      (''1bitLLM/bitnet_b1_58-large'',
        \<lparr>entry_model_name = ''bitnet_b1_58-large'',
         entry_description = ''BitNet b1.58 large model''\<rparr>),
      (''1bitLLM/bitnet_b1_58-3B'',
        \<lparr>entry_model_name = ''bitnet_b1_58-3B'',
         entry_description = ''BitNet b1.58 3B model''\<rparr>),
      (''HF1BitLLM/Llama3-8B-1.58-100B-tokens'',
        \<lparr>entry_model_name = ''Llama3-8B-1.58-100B-tokens'',
         entry_description = ''Llama3 8B model quantized to 1.58 bits (100B tokens)''\<rparr>),
      (''tiiuae/Falcon3-1B-Instruct-1.58bit'',
        \<lparr>entry_model_name = ''Falcon3-1B-Instruct-1.58bit'',
         entry_description = ''Falcon3 1B Instruct model quantized to 1.58 bits''\<rparr>),
      (''tiiuae/Falcon3-3B-Instruct-1.58bit'',
        \<lparr>entry_model_name = ''Falcon3-3B-Instruct-1.58bit'',
         entry_description = ''Falcon3 3B Instruct model quantized to 1.58 bits''\<rparr>),
      (''tiiuae/Falcon3-7B-Instruct-1.58bit'',
        \<lparr>entry_model_name = ''Falcon3-7B-Instruct-1.58bit'',
         entry_description = ''Falcon3 7B Instruct model quantized to 1.58 bits''\<rparr>),
      (''tiiuae/Falcon3-10B-Instruct-1.58bit'',
        \<lparr>entry_model_name = ''Falcon3-10B-Instruct-1.58bit'',
         entry_description = ''Falcon3 10B Instruct model quantized to 1.58 bits''\<rparr>)]"

definition ARCH_ALIAS :: "(string \<times> string) list" where
  "ARCH_ALIAS =
     [(''AMD64'', ''x86_64''),
      (''x86'', ''x86_64''),
      (''x86_64'', ''x86_64''),
      (''aarch64'', ''arm64''),
      (''arm64'', ''arm64''),
      (''ARM64'', ''arm64'')]"

section \<open>Model manager (model_manager.py)\<close>

text \<open>
  The state of a \<open>ModelManager\<close>: its directories, the architecture that
  \<open>_get_system_info\<close> found, \<open>self.registry\<close> (the value that \<open>_load_registry\<close> returned,
  as the operations have changed it since), and the document that \<open>registry.json\<close>
  holds.
\<close>

record manager =
  models_dir :: string
  logs_dir :: string
  arch :: string
  registry :: json
  persisted :: json

text \<open>
  \<open>_get_system_info\<close>: \<open>config.ARCH_ALIAS.get(machine, machine)\<close>, a machine string
  with no alias is the architecture as it is.
\<close>

definition get_system_info :: "string \<Rightarrow> string" where
  "get_system_info machine =
     (case map_of ARCH_ALIAS machine of Some a \<Rightarrow> a | None \<Rightarrow> machine)"

text \<open>
  What the file system and the external tools do during one call is given with the
  call: for each operation that can raise, the exception it raises (\<open>None\<close> when it
  succeeds), and for the fetch tool how \<open>subprocess.run(..., check=True)\<close> ends.
\<close>

datatype fetch_outcome = FetchExit int | FetchRaises exn

record env =
  mkdir_error :: "exn option"
  log_open_error :: "exn option"
  fetch :: fetch_outcome
  gguf_exists :: bool
  gguf_write_error :: "exn option"
  rmtree_error :: "exn option"
  save_error :: "exn option"

text \<open>
  \<open>_load_registry\<close>, lines 58 to 66. The registry file is in one of these states when
  it is loaded: it does not exist; \<open>open\<close> raises; reading its text raises (bytes that
  are not text in the encoding); \<open>json.load\<close> raises \<open>JSONDecodeError\<close>; or it holds
  a JSON document. Only \<open>json.JSONDecodeError\<close> is caught.
\<close>

datatype registry_file =
    FileMissing
  | OpenRaises exn
  | ReadRaises exn
  | JSONDecodeError
  | Document json

definition empty_registry :: json where
  "empty_registry = JObject [(''models'', JObject [])]"

definition load_registry :: "registry_file \<Rightarrow> exn + json" where
  "load_registry f =
     (case f of
        FileMissing \<Rightarrow> Inr empty_registry
      | OpenRaises e \<Rightarrow> Inl e
      | ReadRaises e \<Rightarrow> Inl e
      | JSONDecodeError \<Rightarrow> Inr empty_registry
      | Document d \<Rightarrow> Inr d)"

text \<open>\<open>_save_registry\<close>, lines 68 to 71: the whole registry is written, or \<open>open\<close> raises.\<close>

definition save_registry :: "env \<Rightarrow> manager \<Rightarrow> (exn + unit) \<times> manager" where
  "save_registry e s =
     (case save_error e of
        Some x \<Rightarrow> (Inl x, s)
      | None \<Rightarrow> (Inr (), s\<lparr>persisted := registry s\<rparr>))"

text \<open>
  \<open>_run_command\<close>, lines 73 to 99: with a log step the log file is opened first;
  \<open>CalledProcessError\<close> (a non-zero exit) gives \<open>False\<close>, any other exception of
  \<open>subprocess.run\<close> goes on to the caller.
\<close>

definition run_command :: "env \<Rightarrow> string option \<Rightarrow> exn + bool" where
  "run_command e log_step =
     (case (case log_step of None \<Rightarrow> None | Some step \<Rightarrow> log_open_error e) of
        Some x \<Rightarrow> Inl x
      | None \<Rightarrow>
          (case fetch e of
             FetchExit rc \<Rightarrow> Inr (rc = 0)
           | FetchRaises x \<Rightarrow> Inl x))"

text \<open>\<open>list_installed_models\<close>, lines 105 to 107: \<open>self.registry["models"]\<close>.\<close>

definition list_installed_models :: "manager \<Rightarrow> exn + json" where
  "list_installed_models s = py_getitem (registry s) ''models''"

text \<open>
  The dictionary \<open>self.registry["models"]\<close> is changed in place; \<open>with_models\<close> is the
  registry that then holds the changed dictionary under the key it had.
\<close>

definition with_models :: "json \<Rightarrow> json \<Rightarrow> json" where
  "with_models reg models =
     (case reg of
        JObject kvs \<Rightarrow> JObject (AList.update ''models'' models kvs)
      | _ \<Rightarrow> reg)"

text \<open>
  \<open>download_model\<close>, lines 109 to 169. \<open>config.SUPPORTED_QUANT_TYPES[self.arch]\<close> is a
  dictionary subscript: it raises KeyError for an architecture that is not a key. The
  registry is subscripted and assigned to outside any \<open>try\<close>.
\<close>

definition download_model ::
  "env \<Rightarrow> string \<Rightarrow> string option \<Rightarrow> manager \<Rightarrow> (exn + bool) \<times> manager" where
  "download_model e mid qt s =
     (case map_of SUPPORTED_MODELS mid of
        None \<Rightarrow> (Inr False, s)
      | Some entry \<Rightarrow>
          (case (case qt of
                   Some q \<Rightarrow> Inr q
                 | None \<Rightarrow>
                     (case map_of SUPPORTED_QUANT_TYPES (arch s) of
                        None \<Rightarrow> Inl (KeyError (arch s))
                      | Some [] \<Rightarrow> Inl IndexError
                      | Some (q # qs) \<Rightarrow> Inr q)) of
             Inl x \<Rightarrow> (Inl x, s)
           | Inr q \<Rightarrow>
               (case map_of SUPPORTED_QUANT_TYPES (arch s) of
                  None \<Rightarrow> (Inl (KeyError (arch s)), s)
                | Some qs \<Rightarrow>
                    if q \<notin> set qs then (Inr False, s)
                    else
                      let name = entry_model_name entry;
                          model_dir = path_join (models_dir s) name
                      in (case mkdir_error e of
                            Some x \<Rightarrow> (Inl x, s)
                          | None \<Rightarrow>
                              (case run_command e (Some (''download_model_'' @ name)) of
                                 Inl x \<Rightarrow> (Inr False, s)
                               | Inr False \<Rightarrow> (Inr False, s)
                               | Inr True \<Rightarrow>
                                   let gguf = path_join model_dir (''ggml-model-'' @ q @ ''.gguf'')
                                   in (case (if gguf_exists e then None else gguf_write_error e) of
                                         Some x \<Rightarrow> (Inl x, s)
                                       | None \<Rightarrow>
                                           (case py_getitem (registry s) ''models'' of
                                              Inl x \<Rightarrow> (Inl x, s)
                                            | Inr models \<Rightarrow>
                                                (case py_setitem models name
                                                        (JObject
                                                          [(''model_id'', JString mid),
                                                           (''model_name'', JString name),
                                                           (''quant_type'', JString q),
                                                           (''path'', JString model_dir),
                                                           (''gguf_path'', JString gguf),
                                                           (''description'',
                                                              JString (entry_description entry))]) of
                                                   Inl x \<Rightarrow> (Inl x, s)
                                                 | Inr models' \<Rightarrow>
                                                     (case save_registry e
                                                             (s\<lparr>registry :=
                                                                  with_models (registry s) models'\<rparr>) of
                                                        (Inl x, s') \<Rightarrow> (Inl x, s')
                                                      | (Inr u, s') \<Rightarrow> (Inr True, s'))))))))))"

text \<open>
  \<open>remove_model\<close>, lines 171 to 198. The membership test (line 180) and the two
  subscripts (line 184) are outside the \<open>try\<close>; \<open>shutil.rmtree\<close> runs inside
  \<open>try ... except Exception\<close>; the registry is changed and saved behind it.
\<close>

definition remove_model :: "env \<Rightarrow> string \<Rightarrow> manager \<Rightarrow> (exn + bool) \<times> manager" where
  "remove_model e name s =
     (case py_getitem (registry s) ''models'' of
        Inl x \<Rightarrow> (Inl x, s)
      | Inr models \<Rightarrow>
          (case py_contains models name of
             Inl x \<Rightarrow> (Inl x, s)
           | Inr False \<Rightarrow> (Inr False, s)
           | Inr True \<Rightarrow>
               (case py_getitem models name of
                  Inl x \<Rightarrow> (Inl x, s)
                | Inr r \<Rightarrow>
                    (case py_getitem r ''path'' of
                       Inl x \<Rightarrow> (Inl x, s)
                     | Inr model_dir \<Rightarrow>
                         (case rmtree_error e of
                            Some x \<Rightarrow> (Inr False, s)
                          | None \<Rightarrow>
                              (case py_delitem models name of
                                 Inl x \<Rightarrow> (Inl x, s)
                               | Inr models' \<Rightarrow>
                                   (case save_registry e
                                           (s\<lparr>registry := with_models (registry s) models'\<rparr>) of
                                      (Inl x, s') \<Rightarrow> (Inl x, s')
                                    | (Inr u, s') \<Rightarrow> (Inr True, s'))))))))"

text \<open>
  \<open>get_model_path\<close>, lines 200 to 212, and \<open>get_model_info\<close>, lines 214 to 226; the
  \<open>None\<close> they return for a name that is not installed is \<open>JNull\<close>.
\<close>

definition get_model_path :: "manager \<Rightarrow> string \<Rightarrow> exn + json" where
  "get_model_path s name =
     (case py_getitem (registry s) ''models'' of
        Inl x \<Rightarrow> Inl x
      | Inr models \<Rightarrow>
          (case py_contains models name of
             Inl x \<Rightarrow> Inl x
           | Inr False \<Rightarrow> Inr JNull
           | Inr True \<Rightarrow>
               (case py_getitem models name of
                  Inl x \<Rightarrow> Inl x
                | Inr r \<Rightarrow> py_getitem r ''gguf_path'')))"

definition get_model_info :: "manager \<Rightarrow> string \<Rightarrow> exn + json" where
  "get_model_info s name =
     (case py_getitem (registry s) ''models'' of
        Inl x \<Rightarrow> Inl x
      | Inr models \<Rightarrow>
          (case py_contains models name of
             Inl x \<Rightarrow> Inl x
           | Inr False \<Rightarrow> Inr JNull
           | Inr True \<Rightarrow> py_getitem models name))"

section \<open>Process orchestrator (inference.py)\<close>

text \<open>
  The generation parameters of a call. \<open>temperature\<close> is a float: the model keeps the
  text that \<open>str(temperature)\<close> gives, which is all the code uses of it.
\<close>

record generation_params =
  n_predict :: int
  threads :: int
  ctx_size :: int
  temperature :: string
  conversation :: bool

text \<open>
  The host: the string that \<open>_get_llama_cli_path\<close> returns, and the platform's signal
  table (signal number to the \<open>repr\<close> of \<open>signal.Signals(n)\<close>), which the text of a
  \<open>CalledProcessError\<close> reads for a process that a signal killed.
\<close>

record host =
  llama_cli :: string
  signals :: "(nat \<times> string) list"

datatype command = Shell string | Argv "string list"

text \<open>\<open>"'%s'" % cmd\<close>: a command string as it is, an argument vector as its \<open>repr\<close>.\<close>

definition command_text :: "command \<Rightarrow> string" where
  "command_text cmd = (case cmd of Shell c \<Rightarrow> c | Argv xs \<Rightarrow> list_repr xs)"

text \<open>\<open>str(e)\<close> for \<open>e = CalledProcessError(returncode, cmd, output, stderr)\<close>.\<close>

definition called_process_error_str :: "(nat \<times> string) list \<Rightarrow> command \<Rightarrow> int \<Rightarrow> string" where
  "called_process_error_str sigs cmd rc =
     (if rc < 0 then
        (case map_of sigs (nat (- rc)) of
           Some name \<Rightarrow>
             ''Command '' @ [CHR 0x27] @ command_text cmd @ [CHR 0x27] @ '' died with '' @ name @ ''.''
         | None \<Rightarrow>
             ''Command '' @ [CHR 0x27] @ command_text cmd @ [CHR 0x27]
               @ '' died with unknown signal '' @ str_int (- rc) @ ''.'')
      else
        ''Command '' @ [CHR 0x27] @ command_text cmd @ [CHR 0x27]
          @ '' returned non-zero exit status '' @ str_int rc @ ''.'')"

text \<open>
  How \<open>subprocess.run(..., capture_output=True, text=True, check=True)\<close> ends: the
  process exits with a return code, its captured stdout and its captured stderr, or the
  call raises another exception (the binary cannot be started).
\<close>

datatype run_outcome = Completed int string string | RunRaises exn

text \<open>The command string of the mock branch of \<open>run_inference\<close>, lines 140 to 142.\<close>

definition run_inference_command_str ::
  "string \<Rightarrow> string \<Rightarrow> string \<Rightarrow> generation_params \<Rightarrow> string" where
  "run_inference_command_str cli model_path prompt g =
     (cli @ '' -m '' @ model_path @ '' -n '' @ str_int (n_predict g)
        @ '' -t '' @ str_int (threads g) @ '' -p '' @ [CHR 0x22] @ prompt @ [CHR 0x22]
        @ '' -ngl 0 -c '' @ str_int (ctx_size g) @ '' --temp '' @ temperature g @ '' -b 1'')
     @ (if conversation g then '' -cnv'' else [])"

text \<open>The argument vector of the other branch of \<open>run_inference\<close>, lines 153 to 166.\<close>

definition run_inference_command ::
  "string \<Rightarrow> string \<Rightarrow> string \<Rightarrow> generation_params \<Rightarrow> string list" where
  "run_inference_command cli model_path prompt g =
     [cli,
      ''-m'', model_path,
      ''-n'', str_int (n_predict g),
      ''-t'', str_int (threads g),
      ''-p'', prompt,
      ''-ngl'', ''0'',
      ''-c'', str_int (ctx_size g),
      ''--temp'', temperature g,
      ''-b'', ''1'']
     @ (if conversation g then [''-cnv''] else [])"

text \<open>
  \<open>run_inference\<close>, lines 106 to 174. The model path is whatever the registry holds
  as \<open>gguf_path\<close>: the mock branch prints it into the command string, and in the other
  branch \<open>subprocess.run\<close> raises \<open>TypeError\<close> for an argument that is not a string.
  Only \<open>CalledProcessError\<close> is caught; the \<open>RuntimeError\<close> raised in its place is
  built from \<open>e\<close> alone (\<open>e.stderr\<close> goes to the log).
\<close>

definition run_inference ::
  "manager \<Rightarrow> host \<Rightarrow> run_outcome \<Rightarrow> string \<Rightarrow> string \<Rightarrow> generation_params \<Rightarrow> exn + string" where
  "run_inference s h outcome name prompt g =
     (case get_model_path s name of
        Inl x \<Rightarrow> Inl x
      | Inr model_path \<Rightarrow>
          if model_path = JNull then Inl (ValueError (''Model '' @ name @ '' not found''))
          else if suffix ''mock_llama_cli.py'' (llama_cli h) then
            (case outcome of
               RunRaises x \<Rightarrow> Inl x
             | Completed rc out err \<Rightarrow>
                 if rc = 0 then Inr out
                 else Inl (RuntimeError (''Error running inference with mock: ''
                        @ called_process_error_str (signals h)
                            (Shell (run_inference_command_str (llama_cli h) (py_str model_path)
                                      prompt g)) rc)))
          else
            (case model_path of
               JString p \<Rightarrow>
                 (case outcome of
                    RunRaises x \<Rightarrow> Inl x
                  | Completed rc out err \<Rightarrow>
                      if rc = 0 then Inr out
                      else Inl (RuntimeError (''Error running inference: ''
                             @ called_process_error_str (signals h)
                                 (Argv (run_inference_command (llama_cli h) p prompt g)) rc)))
             | _ \<Rightarrow> Inl TypeError))"

text \<open>The command string of the mock branch of \<open>stream_inference\<close>, lines 206 to 208.\<close>

definition stream_inference_command_str ::
  "string \<Rightarrow> string \<Rightarrow> string \<Rightarrow> generation_params \<Rightarrow> string" where
  "stream_inference_command_str cli model_path prompt g =
     (cli @ '' -m '' @ model_path @ '' -n '' @ str_int (n_predict g)
        @ '' -t '' @ str_int (threads g) @ '' -p '' @ [CHR 0x22] @ prompt @ [CHR 0x22]
        @ '' -ngl 0 -c '' @ str_int (ctx_size g) @ '' --temp '' @ temperature g @ '' -b 1'')
     @ (if conversation g then '' -cnv'' else [])"

text \<open>The argument vector of the other branch of \<open>stream_inference\<close>, lines 243 to 256.\<close>

definition stream_inference_command ::
  "string \<Rightarrow> string \<Rightarrow> string \<Rightarrow> generation_params \<Rightarrow> string list" where
  "stream_inference_command cli model_path prompt g =
     [cli,
      ''-m'', model_path,
      ''-n'', str_int (n_predict g),
      ''-t'', str_int (threads g),
      ''-p'', prompt,
      ''-ngl'', ''0'',
      ''-c'', str_int (ctx_size g),
      ''--temp'', temperature g,
      ''-b'', ''1'']
     @ (if conversation g then [''-cnv''] else [])"

text \<open>
  How the streamed process ends: \<open>Popen\<close> raises (the text of the exception is kept),
  or the process writes its lines, which the reader hands to the callback in order, and
  exits with a return code and a stderr text.
\<close>

datatype stream_outcome = Streamed "string list" int string | PopenRaises string

text \<open>
  \<open>stream_inference\<close>, lines 176 to 287. The callback works on a state of the caller's,
  threaded through the calls. The \<open>RuntimeError\<close> raised for a non-zero exit holds the
  stderr text; it is caught by \<open>except Exception\<close> and wrapped once more, as is the
  \<open>TypeError\<close> of \<open>Popen\<close> for a model path that is not a string.
\<close>

definition stream_inference ::
  "manager \<Rightarrow> host \<Rightarrow> stream_outcome \<Rightarrow> string \<Rightarrow> string \<Rightarrow> (string \<Rightarrow> 'st \<Rightarrow> 'st)
     \<Rightarrow> generation_params \<Rightarrow> 'st \<Rightarrow> (exn + unit) \<times> 'st" where
  "stream_inference s h outcome name prompt callback g st =
     (case get_model_path s name of
        Inl x \<Rightarrow> (Inl x, st)
      | Inr model_path \<Rightarrow>
          if model_path = JNull then (Inl (ValueError (''Model '' @ name @ '' not found'')), st)
          else if suffix ''mock_llama_cli.py'' (llama_cli h) then
            (case outcome of
               PopenRaises msg \<Rightarrow>
                 (Inl (RuntimeError (''Error streaming inference with mock: '' @ msg)), st)
             | Streamed lines rc err \<Rightarrow>
                 let st' = foldl (\<lambda>acc line. callback line acc) st lines
                 in if rc \<noteq> 0
                    then (Inl (RuntimeError (''Error streaming inference with mock: ''
                                 @ ''Error running inference with mock: '' @ err)), st')
                    else (Inr (), st'))
          else
            (case model_path of
               JString p \<Rightarrow>
                 (case outcome of
                    PopenRaises msg \<Rightarrow>
                      (Inl (RuntimeError (''Error streaming inference: '' @ msg)), st)
                  | Streamed lines rc err \<Rightarrow>
                      let st' = foldl (\<lambda>acc line. callback line acc) st lines
                      in if rc \<noteq> 0
                         then (Inl (RuntimeError (''Error streaming inference: ''
                                      @ ''Error running inference: '' @ err)), st')
                         else (Inr (), st'))
             | _ \<Rightarrow>
                 (Inl (RuntimeError (''Error streaming inference: ''
                         @ ''expected str, bytes or os.PathLike object, not ''
                         @ type_name model_path)), st)))"

section \<open>Chat session formatter: the replies (inference.py)\<close>

text \<open>
  The reply dictionaries. A choice holds either a \<open>"message"\<close> (a completion) or a
  \<open>"delta"\<close> (a streamed chunk; the delta is a dictionary, empty in the last chunk), and
  a \<open>"finish_reason"\<close> that is a string or \<open>None\<close>.
\<close>

datatype choice_body = Message chat_message | Delta "(string \<times> string) list"

record choice =
  index :: int
  body :: choice_body
  finish_reason :: "string option"

record envelope =
  envelope_id :: string
  object :: string
  created :: int
  model :: string
  choices :: "choice list"

text \<open>
  \<open>chat_completion\<close>, lines 289 to 354. \<open>now\<close> is the clock reading
  \<open>int(import_time())\<close>; the inference runs in conversation mode.
\<close>

definition chat_completion ::
  "manager \<Rightarrow> host \<Rightarrow> run_outcome \<Rightarrow> int \<Rightarrow> string \<Rightarrow> chat_message list
     \<Rightarrow> generation_params \<Rightarrow> exn + envelope" where
  "chat_completion s h outcome now name messages g =
     (case run_inference s h outcome name (chat_completion_prompt messages)
             (g\<lparr>conversation := True\<rparr>) of
        Inl x \<Rightarrow> Inl x
      | Inr response \<Rightarrow>
          let assistant_response = str_strip (last (str_split ''Assistant: '' response))
          in Inr \<lparr>envelope_id = ''chat-'' @ name,
                  object = ''chat.completion'',
                  created = now,
                  model = name,
                  choices =
                    [\<lparr>index = 0,
                      body = Message \<lparr>role = ''assistant'', content = assistant_response\<rparr>,
                      finish_reason = Some ''stop''\<rparr>]\<rparr>)"

text \<open>
  \<open>stream_chat_completion\<close>, lines 356 to 450. The state of the chunk handler is the
  buffer, the envelopes handed to the caller's callback so far, and the number of clock
  readings taken; \<open>clock k\<close> is the reading \<open>int(import_time())\<close> number \<open>k\<close> of the
  call.
\<close>

record stream_state =
  response_buffer :: string
  emitted :: "envelope list"
  clock_reads :: nat

text \<open>
  \<open>stream_callback\<close>, lines 395 to 421: the chunk is appended to the buffer first;
  when the buffer then holds \<open>"Assistant: "\<close>, an envelope with the chunk itself as
  delta content is emitted (the stripped text behind the last marker is computed and
  not used).
\<close>

definition stream_callback :: "(nat \<Rightarrow> int) \<Rightarrow> string \<Rightarrow> string \<Rightarrow> stream_state \<Rightarrow> stream_state" where
  "stream_callback clock name chunk st =
     (let buffer = response_buffer st @ chunk
      in if str_in ''Assistant: '' buffer then
           let assistant_response = str_strip (last (str_split ''Assistant: '' buffer));
               response =
                 \<lparr>envelope_id = ''chat-'' @ name,
                  object = ''chat.completion.chunk'',
                  created = clock (clock_reads st),
                  model = name,
                  choices =
                    [\<lparr>index = 0,
                      body = Delta [(''role'', ''assistant''), (''content'', chunk)],
                      finish_reason = None\<rparr>]\<rparr>
           in \<lparr>response_buffer = buffer,
               emitted = emitted st @ [response],
               clock_reads = Suc (clock_reads st)\<rparr>
         else st\<lparr>response_buffer := buffer\<rparr>)"

definition stream_chat_completion ::
  "manager \<Rightarrow> host \<Rightarrow> stream_outcome \<Rightarrow> (nat \<Rightarrow> int) \<Rightarrow> string \<Rightarrow> chat_message list
     \<Rightarrow> generation_params \<Rightarrow> (exn + unit) \<times> envelope list" where
  "stream_chat_completion s h outcome clock name messages g =
     (case stream_inference s h outcome name (stream_chat_completion_prompt messages)
             (stream_callback clock name) (g\<lparr>conversation := True\<rparr>)
             \<lparr>response_buffer = [], emitted = [], clock_reads = 0\<rparr> of
        (Inl x, st) \<Rightarrow> (Inl x, emitted st)
      | (Inr u, st) \<Rightarrow>
          (Inr (),
           emitted st @
             [\<lparr>envelope_id = ''chat-'' @ name,
               object = ''chat.completion.chunk'',
               created = clock (clock_reads st),
               model = name,
               choices = [\<lparr>index = 0, body = Delta [], finish_reason = Some ''stop''\<rparr>]\<rparr>]))"

text \<open>The delta contents of a list of envelopes: \<open>None\<close> for a delta with no content.\<close>

definition delta_contents :: "envelope list \<Rightarrow> string option list" where
  "delta_contents es =
     map (\<lambda>e. case choices e of
                 [] \<Rightarrow> None
               | c # cs \<Rightarrow> (case body c of Delta d \<Rightarrow> map_of d ''content'' | Message m \<Rightarrow> None))
         es"

section \<open>Properties of the prompt\<close>

lemma capitalized_roles:
  "capitalized ''system'' = ''System''"
  "capitalized ''user'' = ''User''"
  "capitalized ''assistant'' = ''Assistant''"
  by (simp_all add: capitalized_def upper_char_def) code_simp+

lemma append_message_acc: "append_message acc m = acc @ append_message [] m"
  by (simp add: append_message_def)

lemma foldl_append_message:
  "foldl append_message acc ms = acc @ foldl append_message [] ms"
proof (induction ms arbitrary: acc)
  case Nil
  show ?case by simp
next
  case (Cons m ms)
  have "foldl append_message acc (m # ms) = foldl append_message (append_message acc m) ms"
    by simp
  also have "\<dots> = append_message acc m @ foldl append_message [] ms"
    by (rule Cons.IH)
  also have "\<dots> = acc @ append_message [] m @ foldl append_message [] ms"
    using append_message_acc [of acc m] by simp
  also have "\<dots> = acc @ foldl append_message (append_message [] m) ms"
    using Cons.IH [of "append_message [] m"] by simp
  finally show ?case by simp
qed

lemma chat_completion_prompt_Cons:
  "chat_completion_prompt (m # ms) = append_message [] m @ chat_completion_prompt ms"
  unfolding chat_completion_prompt_def
  using foldl_append_message [of "append_message [] m" ms] by simp

lemma stream_chat_completion_prompt_eq:
  "stream_chat_completion_prompt ms = chat_completion_prompt ms"
  by (simp add: stream_chat_completion_prompt_def chat_completion_prompt_def)

lemma chat_completion_prompt_Nil: "chat_completion_prompt [] = ''Assistant: ''"
  by (simp add: chat_completion_prompt_def)

lemma spec_format_prompt_Cons:
  "spec_format_prompt (m # ms) = spec_message_block m @ spec_format_prompt ms"
  by (simp add: spec_format_prompt_def)

lemma prompt_known_roles:
  "\<forall>m \<in> set ms. known_role (role m) \<Longrightarrow> chat_completion_prompt ms = spec_format_prompt ms"
proof (induction ms)
  case Nil
  show ?case by (simp add: chat_completion_prompt_Nil spec_format_prompt_def)
next
  case (Cons m ms)
  have k: "known_role (role m)" using Cons.prems by simp
  have tl: "chat_completion_prompt ms = spec_format_prompt ms"
    using Cons by simp
  have hd: "append_message [] m = spec_message_block m"
    using k capitalized_roles
    by (auto simp: known_role_def spec_message_block_def append_message_def)
  show ?case
    unfolding chat_completion_prompt_Cons spec_format_prompt_Cons hd tl ..
qed

lemma prompt_skips_unknown:
  "chat_completion_prompt ms = chat_completion_prompt (filter (\<lambda>m. known_role (role m)) ms)"
proof (induction ms)
  case Nil
  show ?case by simp
next
  case (Cons m ms)
  show ?case
  proof (cases "known_role (role m)")
    case True
    then show ?thesis
      using Cons.IH chat_completion_prompt_Cons [of m ms]
        chat_completion_prompt_Cons [of m "filter (\<lambda>m. known_role (role m)) ms"]
      by simp
  next
    case False
    then have "append_message [] m = []"
      by (simp add: append_message_def known_role_def)
    then have "chat_completion_prompt (m # ms) = chat_completion_prompt ms"
      by (simp add: chat_completion_prompt_Cons)
    with False Cons.IH show ?thesis by simp
  qed
qed

text \<open>
  C9. For every list of messages whose roles are system, user or assistant, the prompt
  that \<open>chat_completion\<close> builds is the concatenation, in message order, of
  \<open>"<Role>: <content>\n\n"\<close> with the role label capitalized, followed by the cue
  \<open>"Assistant: "\<close>; for the messages (system, "Be terse") and (user, "Hi") it is
  exactly \<open>"System: Be terse\n\nUser: Hi\n\nAssistant: "\<close>.
\<close>

theorem C9_format_prompt:
  "((\<forall>m \<in> set messages. known_role (role m)) \<longrightarrow>
      chat_completion_prompt messages = spec_format_prompt messages)
   \<and> chat_completion_prompt
        [\<lparr>role = ''system'', content = ''Be terse''\<rparr>, \<lparr>role = ''user'', content = ''Hi''\<rparr>]
      = ''System: Be terse\<newline>\<newline>User: Hi\<newline>\<newline>Assistant: ''"
  by (simp add: prompt_known_roles chat_completion_prompt_Cons chat_completion_prompt_Nil
      append_message_def)

theorem C9_format_prompt_witness:
  "known_role ''user'' \<and> known_role ''assistant''
   \<and> spec_format_prompt
        [\<lparr>role = ''user'', content = ''2+2?''\<rparr>, \<lparr>role = ''assistant'', content = ''4''\<rparr>,
         \<lparr>role = ''user'', content = ''Sure?''\<rparr>]
      = ''User: 2+2?\<newline>\<newline>Assistant: 4\<newline>\<newline>User: Sure?\<newline>\<newline>Assistant: ''
   \<and> chat_completion_prompt
        [\<lparr>role = ''user'', content = ''2+2?''\<rparr>, \<lparr>role = ''assistant'', content = ''4''\<rparr>,
         \<lparr>role = ''user'', content = ''Sure?''\<rparr>]
      = ''User: 2+2?\<newline>\<newline>Assistant: 4\<newline>\<newline>User: Sure?\<newline>\<newline>Assistant: ''"
  using C9_format_prompt
    [of "[\<lparr>role = ''user'', content = ''2+2?''\<rparr>, \<lparr>role = ''assistant'', content = ''4''\<rparr>,
          \<lparr>role = ''user'', content = ''Sure?''\<rparr>]"]
  by (simp add: known_role_def spec_format_prompt_def spec_message_block_def capitalized_roles)

text \<open>
  C10. In both \<open>chat_completion\<close> and \<open>stream_chat_completion\<close>, a message whose role
  is not exactly "system", "user" or "assistant" is skipped: the prompt equals the prompt
  of the sublist of the messages with a known role, so such a message adds no text to it
  wherever it stands. The function is total on messages, so no error arises.
\<close>

theorem C10_unknown_role_skipped:
  "chat_completion_prompt messages
     = chat_completion_prompt (filter (\<lambda>m. known_role (role m)) messages)
   \<and> stream_chat_completion_prompt messages
     = stream_chat_completion_prompt (filter (\<lambda>m. known_role (role m)) messages)
   \<and> (\<not> known_role (role x) \<longrightarrow>
        chat_completion_prompt (before @ x # after) = chat_completion_prompt (before @ after)
        \<and> stream_chat_completion_prompt (before @ x # after)
          = stream_chat_completion_prompt (before @ after))"
proof -
  have a: "chat_completion_prompt messages
     = chat_completion_prompt (filter (\<lambda>m. known_role (role m)) messages)"
    by (rule prompt_skips_unknown)
  have b: "\<not> known_role (role x) \<Longrightarrow>
        chat_completion_prompt (before @ x # after) = chat_completion_prompt (before @ after)"
    using prompt_skips_unknown [of "before @ x # after"] prompt_skips_unknown [of "before @ after"]
    by simp
  show ?thesis
    unfolding stream_chat_completion_prompt_eq using a b by blast
qed

theorem C10_unknown_role_skipped_witness:
  "\<not> known_role (role \<lparr>role = ''tool'', content = ''42''\<rparr>)
   \<and> chat_completion_prompt
        [\<lparr>role = ''user'', content = ''Hi''\<rparr>, \<lparr>role = ''tool'', content = ''42''\<rparr>,
         \<lparr>role = ''System'', content = ''upper case''\<rparr>]
      = ''User: Hi\<newline>\<newline>Assistant: ''
   \<and> stream_chat_completion_prompt
        [\<lparr>role = ''user'', content = ''Hi''\<rparr>, \<lparr>role = ''tool'', content = ''42''\<rparr>,
         \<lparr>role = ''System'', content = ''upper case''\<rparr>]
      = ''User: Hi\<newline>\<newline>Assistant: ''"
  using C10_unknown_role_skipped
    [of "[\<lparr>role = ''user'', content = ''Hi''\<rparr>, \<lparr>role = ''tool'', content = ''42''\<rparr>,
          \<lparr>role = ''System'', content = ''upper case''\<rparr>]"
        "\<lparr>role = ''tool'', content = ''42''\<rparr>" "[]" "[]"]
  by (simp add: known_role_def stream_chat_completion_prompt_eq chat_completion_prompt_Cons
      chat_completion_prompt_Nil append_message_def)

section \<open>Properties of the model manager\<close>

lemma quant_types_riscv: "map_of SUPPORTED_QUANT_TYPES ''riscv64'' = None"
  by (simp add: SUPPORTED_QUANT_TYPES_def)

lemma save_registry_cases:
  "save_registry e s = (if save_error e = None then (Inr (), s\<lparr>persisted := registry s\<rparr>)
                        else (Inl (the (save_error e)), s))"
  by (auto simp: save_registry_def split: option.splits)

text \<open>
  C3. \<open>download_model\<close> is claimed never to raise, for every host architecture. On a
  host whose machine string has no alias and no entry in \<open>SUPPORTED_QUANT_TYPES\<close>
  (here \<open>riscv64\<close>), a download of a model of the catalog raises KeyError, with or
  without a quantization type, before anything is fetched; the manager is unchanged.
\<close>

theorem C3_download_model_raises:
  "get_system_info ''riscv64'' = ''riscv64''
   \<and> download_model e ''microsoft/BitNet-b1.58-2B-4T'' qt (s\<lparr>arch := get_system_info ''riscv64''\<rparr>)
       = (Inl (KeyError ''riscv64''), s\<lparr>arch := ''riscv64''\<rparr>)"
proof -
  have a: "get_system_info ''riscv64'' = ''riscv64''"
    by (simp add: get_system_info_def ARCH_ALIAS_def)
  have m: "map_of SUPPORTED_MODELS ''microsoft/BitNet-b1.58-2B-4T''
      = Some \<lparr>entry_model_name = ''BitNet-b1.58-2B-4T'',
         entry_description = ''Official BitNet 2B parameter model (4T tokens)''\<rparr>"
    by (simp add: SUPPORTED_MODELS_def)
  show ?thesis
    unfolding a download_model_def m
    by (cases qt) (simp_all add: quant_types_riscv)
qed

lemma installed_models_shape:
  "list_installed_models s = Inr ms \<Longrightarrow>
   \<exists>kvs. registry s = JObject kvs \<and> map_of kvs ''models'' = Some ms"
  by (auto simp: list_installed_models_def py_getitem_def split: json.splits option.splits)

lemma with_models_lookup:
  "registry s = JObject kvs \<Longrightarrow>
   py_getitem (with_models (registry s) ms) ''models'' = Inr ms"
  by (simp add: with_models_def py_getitem_def update_conv')

text \<open>
  C5, as claimed: for every registry state, a name that is not in the registry makes
  \<open>remove_model\<close> return failure without raising. It fails for a registry that
  \<open>_load_registry\<close> returned from a document with no \<open>"models"\<close> key (the file \<open>{}\<close>),
  and for a record with no \<open>"path"\<close>: the subscripts of lines 180 and 184 are outside
  the \<open>try\<close> and raise KeyError.
\<close>

theorem C5_remove_model_counterexample:
  "load_registry (Document (JObject [])) = Inr (JObject [])
   \<and> remove_model
        \<lparr>mkdir_error = None, log_open_error = None, fetch = FetchExit 0,
           gguf_exists = False, gguf_write_error = None, rmtree_error = None,
           save_error = None\<rparr> ''bitnet_b1_58-3B''
        \<lparr>models_dir = ''models'', logs_dir = ''logs'', arch = ''x86_64'',
          registry = JObject [],
          persisted = JObject []\<rparr>
      = (Inl (KeyError ''models''),
        \<lparr>models_dir = ''models'', logs_dir = ''logs'', arch = ''x86_64'',
          registry = JObject [],
          persisted = JObject []\<rparr>)
   \<and> remove_model
        \<lparr>mkdir_error = None, log_open_error = None, fetch = FetchExit 0,
           gguf_exists = False, gguf_write_error = None, rmtree_error = None,
           save_error = None\<rparr> ''bitnet_b1_58-3B''
        \<lparr>models_dir = ''models'', logs_dir = ''logs'', arch = ''x86_64'',
          registry = JObject [(''models'', JObject [(''bitnet_b1_58-3B'',
              JObject [(''model_name'', JString ''bitnet_b1_58-3B'')])])],
          persisted = JObject [(''models'', JObject [(''bitnet_b1_58-3B'',
              JObject [(''model_name'', JString ''bitnet_b1_58-3B'')])])]\<rparr>
      = (Inl (KeyError ''path''),
        \<lparr>models_dir = ''models'', logs_dir = ''logs'', arch = ''x86_64'',
          registry = JObject [(''models'', JObject [(''bitnet_b1_58-3B'',
              JObject [(''model_name'', JString ''bitnet_b1_58-3B'')])])],
          persisted = JObject [(''models'', JObject [(''bitnet_b1_58-3B'',
              JObject [(''model_name'', JString ''bitnet_b1_58-3B'')])])]\<rparr>)"
  by (simp add: load_registry_def remove_model_def py_getitem_def py_contains_def)

text \<open>
  C5, amended: for every registry that holds a dictionary under \<open>"models"\<close> and every
  model name: a name that is not a key of it makes \<open>remove_model\<close> return \<open>False\<close> with
  the manager unchanged; for a name whose record has a \<open>"path"\<close>, when \<open>shutil.rmtree\<close>
  raises it returns \<open>False\<close> and the manager, the record included, is unchanged; when
  the deletion and the save succeed it returns \<open>True\<close>, the record is gone and the
  registry is persisted. For any registry at all, the manager changes only when the
  name was installed and the deletion succeeded.
\<close>

theorem C5_remove_model:
  "(list_installed_models s = Inr (JObject ms) \<and> map_of ms name = None \<longrightarrow>
      remove_model e name s = (Inr False, s))
   \<and> (list_installed_models s = Inr (JObject ms) \<and> map_of ms name = Some r
        \<and> py_getitem r ''path'' = Inr d \<and> rmtree_error e = Some x \<longrightarrow>
      remove_model e name s = (Inr False, s)
      \<and> get_model_info (snd (remove_model e name s)) name = Inr r)
   \<and> (list_installed_models s = Inr (JObject ms) \<and> map_of ms name = Some r
        \<and> py_getitem r ''path'' = Inr d \<and> rmtree_error e = None \<and> save_error e = None \<longrightarrow>
      remove_model e name s
        = (Inr True,
           s\<lparr>registry := with_models (registry s) (JObject (AList.delete name ms)),
             persisted := with_models (registry s) (JObject (AList.delete name ms))\<rparr>)
      \<and> list_installed_models (snd (remove_model e name s))
          = Inr (JObject (AList.delete name ms))
      \<and> get_model_info (snd (remove_model e name s)) name = Inr JNull)
   \<and> (remove_model e name s = (res, s') \<and> s' \<noteq> s \<longrightarrow>
      rmtree_error e = None
      \<and> (\<exists>models. list_installed_models s = Inr models \<and> py_contains models name = Inr True))"
proof -
  have c1: "remove_model e name s = (Inr False, s)"
    if "list_installed_models s = Inr (JObject ms) \<and> map_of ms name = None"
    using that by (simp add: remove_model_def list_installed_models_def py_contains_def)
  have c2: "remove_model e name s = (Inr False, s)
      \<and> get_model_info (snd (remove_model e name s)) name = Inr r"
    if a: "list_installed_models s = Inr (JObject ms) \<and> map_of ms name = Some r
        \<and> py_getitem r ''path'' = Inr d \<and> rmtree_error e = Some x"
  proof -
    have 1: "remove_model e name s = (Inr False, s)"
      using a by (simp add: remove_model_def list_installed_models_def py_contains_def
          py_getitem_def)
    have 2: "get_model_info s name = Inr r"
      using a by (simp add: get_model_info_def list_installed_models_def py_contains_def
          py_getitem_def)
    show ?thesis using 1 2 by simp
  qed
  have c3: "remove_model e name s
        = (Inr True,
           s\<lparr>registry := with_models (registry s) (JObject (AList.delete name ms)),
             persisted := with_models (registry s) (JObject (AList.delete name ms))\<rparr>)
      \<and> list_installed_models (snd (remove_model e name s))
          = Inr (JObject (AList.delete name ms))
      \<and> get_model_info (snd (remove_model e name s)) name = Inr JNull"
    if a: "list_installed_models s = Inr (JObject ms) \<and> map_of ms name = Some r
        \<and> py_getitem r ''path'' = Inr d \<and> rmtree_error e = None \<and> save_error e = None"
  proof -
    obtain kvs where k: "registry s = JObject kvs"
      using a installed_models_shape [of s "JObject ms"] by blast
    let ?reg = "with_models (registry s) (JObject (AList.delete name ms))"
    have 1: "remove_model e name s = (Inr True, s\<lparr>registry := ?reg, persisted := ?reg\<rparr>)"
      using a by (simp add: remove_model_def list_installed_models_def py_contains_def
          py_getitem_def py_delitem_def save_registry_def)
    have 2: "py_getitem ?reg ''models'' = Inr (JObject (AList.delete name ms))"
      using k by (rule with_models_lookup)
    have 3: "map_of (AList.delete name ms) name = None"
      by (simp add: delete_conv')
    show ?thesis
      using 1 2 3 by (simp add: list_installed_models_def get_model_info_def py_contains_def)
  qed
  have c4: "rmtree_error e = None
      \<and> (\<exists>models. list_installed_models s = Inr models \<and> py_contains models name = Inr True)"
    if "remove_model e name s = (res, s') \<and> s' \<noteq> s"
    using that
    by (auto simp: remove_model_def list_installed_models_def save_registry_cases
          split: sum.splits bool.splits option.splits if_splits)
  show ?thesis
    using c1 c2 c3 c4 by blast
qed

theorem C5_remove_model_witness:
  "remove_model
        \<lparr>mkdir_error = None, log_open_error = None, fetch = FetchExit 0,
           gguf_exists = False, gguf_write_error = None, rmtree_error = None,
           save_error = None\<rparr> ''other''
        \<lparr>models_dir = ''models'', logs_dir = ''logs'', arch = ''x86_64'',
          registry = JObject [(''models'', JObject [(''bitnet_b1_58-3B'',
              JObject [(''model_id'', JString ''1bitLLM/bitnet_b1_58-3B''),
               (''model_name'', JString ''bitnet_b1_58-3B''), (''quant_type'', JString ''i2_s''),
               (''path'', JString ''models/bitnet_b1_58-3B''),
               (''gguf_path'', JString ''models/bitnet_b1_58-3B/ggml-model-i2_s.gguf''),
               (''description'', JString ''BitNet b1.58 3B model'')])])],
          persisted = JObject [(''models'', JObject [(''bitnet_b1_58-3B'',
              JObject [(''model_id'', JString ''1bitLLM/bitnet_b1_58-3B''),
               (''model_name'', JString ''bitnet_b1_58-3B''), (''quant_type'', JString ''i2_s''),
               (''path'', JString ''models/bitnet_b1_58-3B''),
               (''gguf_path'', JString ''models/bitnet_b1_58-3B/ggml-model-i2_s.gguf''),
               (''description'', JString ''BitNet b1.58 3B model'')])])]\<rparr>
      = (Inr False,
        \<lparr>models_dir = ''models'', logs_dir = ''logs'', arch = ''x86_64'',
          registry = JObject [(''models'', JObject [(''bitnet_b1_58-3B'',
              JObject [(''model_id'', JString ''1bitLLM/bitnet_b1_58-3B''),
               (''model_name'', JString ''bitnet_b1_58-3B''), (''quant_type'', JString ''i2_s''),
               (''path'', JString ''models/bitnet_b1_58-3B''),
               (''gguf_path'', JString ''models/bitnet_b1_58-3B/ggml-model-i2_s.gguf''),
               (''description'', JString ''BitNet b1.58 3B model'')])])],
          persisted = JObject [(''models'', JObject [(''bitnet_b1_58-3B'',
              JObject [(''model_id'', JString ''1bitLLM/bitnet_b1_58-3B''),
               (''model_name'', JString ''bitnet_b1_58-3B''), (''quant_type'', JString ''i2_s''),
               (''path'', JString ''models/bitnet_b1_58-3B''),
               (''gguf_path'', JString ''models/bitnet_b1_58-3B/ggml-model-i2_s.gguf''),
               (''description'', JString ''BitNet b1.58 3B model'')])])]\<rparr>)
   \<and> remove_model
        (\<lparr>mkdir_error = None, log_open_error = None, fetch = FetchExit 0,
           gguf_exists = False, gguf_write_error = None, rmtree_error = None,
           save_error = None\<rparr>\<lparr>rmtree_error := Some (OSError ''Permission denied'')\<rparr>) ''bitnet_b1_58-3B''
        \<lparr>models_dir = ''models'', logs_dir = ''logs'', arch = ''x86_64'',
          registry = JObject [(''models'', JObject [(''bitnet_b1_58-3B'',
              JObject [(''model_id'', JString ''1bitLLM/bitnet_b1_58-3B''),
               (''model_name'', JString ''bitnet_b1_58-3B''), (''quant_type'', JString ''i2_s''),
               (''path'', JString ''models/bitnet_b1_58-3B''),
               (''gguf_path'', JString ''models/bitnet_b1_58-3B/ggml-model-i2_s.gguf''),
               (''description'', JString ''BitNet b1.58 3B model'')])])],
          persisted = JObject [(''models'', JObject [(''bitnet_b1_58-3B'',
              JObject [(''model_id'', JString ''1bitLLM/bitnet_b1_58-3B''),
               (''model_name'', JString ''bitnet_b1_58-3B''), (''quant_type'', JString ''i2_s''),
               (''path'', JString ''models/bitnet_b1_58-3B''),
               (''gguf_path'', JString ''models/bitnet_b1_58-3B/ggml-model-i2_s.gguf''),
               (''description'', JString ''BitNet b1.58 3B model'')])])]\<rparr>
      = (Inr False,
        \<lparr>models_dir = ''models'', logs_dir = ''logs'', arch = ''x86_64'',
          registry = JObject [(''models'', JObject [(''bitnet_b1_58-3B'',
              JObject [(''model_id'', JString ''1bitLLM/bitnet_b1_58-3B''),
               (''model_name'', JString ''bitnet_b1_58-3B''), (''quant_type'', JString ''i2_s''),
               (''path'', JString ''models/bitnet_b1_58-3B''),
               (''gguf_path'', JString ''models/bitnet_b1_58-3B/ggml-model-i2_s.gguf''),
               (''description'', JString ''BitNet b1.58 3B model'')])])],
          persisted = JObject [(''models'', JObject [(''bitnet_b1_58-3B'',
              JObject [(''model_id'', JString ''1bitLLM/bitnet_b1_58-3B''),
               (''model_name'', JString ''bitnet_b1_58-3B''), (''quant_type'', JString ''i2_s''),
               (''path'', JString ''models/bitnet_b1_58-3B''),
               (''gguf_path'', JString ''models/bitnet_b1_58-3B/ggml-model-i2_s.gguf''),
               (''description'', JString ''BitNet b1.58 3B model'')])])]\<rparr>)
   \<and> remove_model
        \<lparr>mkdir_error = None, log_open_error = None, fetch = FetchExit 0,
           gguf_exists = False, gguf_write_error = None, rmtree_error = None,
           save_error = None\<rparr> ''bitnet_b1_58-3B''
        \<lparr>models_dir = ''models'', logs_dir = ''logs'', arch = ''x86_64'',
          registry = JObject [(''models'', JObject [(''bitnet_b1_58-3B'',
              JObject [(''model_id'', JString ''1bitLLM/bitnet_b1_58-3B''),
               (''model_name'', JString ''bitnet_b1_58-3B''), (''quant_type'', JString ''i2_s''),
               (''path'', JString ''models/bitnet_b1_58-3B''),
               (''gguf_path'', JString ''models/bitnet_b1_58-3B/ggml-model-i2_s.gguf''),
               (''description'', JString ''BitNet b1.58 3B model'')])])],
          persisted = JObject [(''models'', JObject [(''bitnet_b1_58-3B'',
              JObject [(''model_id'', JString ''1bitLLM/bitnet_b1_58-3B''),
               (''model_name'', JString ''bitnet_b1_58-3B''), (''quant_type'', JString ''i2_s''),
               (''path'', JString ''models/bitnet_b1_58-3B''),
               (''gguf_path'', JString ''models/bitnet_b1_58-3B/ggml-model-i2_s.gguf''),
               (''description'', JString ''BitNet b1.58 3B model'')])])]\<rparr>
      = (Inr True,
        \<lparr>models_dir = ''models'', logs_dir = ''logs'', arch = ''x86_64'',
          registry = JObject [(''models'', JObject [])],
          persisted = JObject [(''models'', JObject [])]\<rparr>)"
proof -
  let ?r = "JObject [(''model_id'', JString ''1bitLLM/bitnet_b1_58-3B''),
               (''model_name'', JString ''bitnet_b1_58-3B''), (''quant_type'', JString ''i2_s''),
               (''path'', JString ''models/bitnet_b1_58-3B''),
               (''gguf_path'', JString ''models/bitnet_b1_58-3B/ggml-model-i2_s.gguf''),
               (''description'', JString ''BitNet b1.58 3B model'')]"
  let ?s = "\<lparr>models_dir = ''models'', logs_dir = ''logs'', arch = ''x86_64'',
          registry = JObject [(''models'', JObject [(''bitnet_b1_58-3B'',
              JObject [(''model_id'', JString ''1bitLLM/bitnet_b1_58-3B''),
               (''model_name'', JString ''bitnet_b1_58-3B''), (''quant_type'', JString ''i2_s''),
               (''path'', JString ''models/bitnet_b1_58-3B''),
               (''gguf_path'', JString ''models/bitnet_b1_58-3B/ggml-model-i2_s.gguf''),
               (''description'', JString ''BitNet b1.58 3B model'')])])],
          persisted = JObject [(''models'', JObject [(''bitnet_b1_58-3B'',
              JObject [(''model_id'', JString ''1bitLLM/bitnet_b1_58-3B''),
               (''model_name'', JString ''bitnet_b1_58-3B''), (''quant_type'', JString ''i2_s''),
               (''path'', JString ''models/bitnet_b1_58-3B''),
               (''gguf_path'', JString ''models/bitnet_b1_58-3B/ggml-model-i2_s.gguf''),
               (''description'', JString ''BitNet b1.58 3B model'')])])]\<rparr>"
  let ?ok = "\<lparr>mkdir_error = None, log_open_error = None, fetch = FetchExit 0,
           gguf_exists = False, gguf_write_error = None, rmtree_error = None,
           save_error = None\<rparr>"
  let ?locked = "?ok\<lparr>rmtree_error := Some (OSError ''Permission denied'')\<rparr>"
  have inst: "list_installed_models ?s = Inr (JObject [(''bitnet_b1_58-3B'', ?r)])"
    by (simp add: list_installed_models_def py_getitem_def)
  have absent: "map_of [(''bitnet_b1_58-3B'', ?r)] ''other'' = None" by simp
  have present: "map_of [(''bitnet_b1_58-3B'', ?r)] ''bitnet_b1_58-3B'' = Some ?r" by simp
  have dir: "py_getitem ?r ''path'' = Inr (JString ''models/bitnet_b1_58-3B'')"
    by (simp add: py_getitem_def)
  have e1: "rmtree_error ?locked = Some (OSError ''Permission denied'')" by simp
  have e2: "rmtree_error ?ok = None \<and> save_error ?ok = None" by simp
  have a: "remove_model ?ok ''other'' ?s = (Inr False, ?s)"
    using C5_remove_model [of ?s "[(''bitnet_b1_58-3B'', ?r)]" "''other''" ?ok] inst absent
    by blast
  have b: "remove_model ?locked ''bitnet_b1_58-3B'' ?s = (Inr False, ?s)"
    using C5_remove_model [of ?s "[(''bitnet_b1_58-3B'', ?r)]" "''bitnet_b1_58-3B''" ?locked ?r
        "JString ''models/bitnet_b1_58-3B''" "OSError ''Permission denied''"]
      inst present dir e1
    by blast
  have c: "remove_model ?ok ''bitnet_b1_58-3B'' ?s
      = (Inr True, ?s\<lparr>registry := with_models (registry ?s)
                          (JObject (AList.delete ''bitnet_b1_58-3B'' [(''bitnet_b1_58-3B'', ?r)])),
                     persisted := with_models (registry ?s)
                          (JObject (AList.delete ''bitnet_b1_58-3B'' [(''bitnet_b1_58-3B'', ?r)]))\<rparr>)"
    using C5_remove_model [of ?s "[(''bitnet_b1_58-3B'', ?r)]" "''bitnet_b1_58-3B''" ?ok ?r
        "JString ''models/bitnet_b1_58-3B''"]
      inst present dir e2
    by blast
  have d: "with_models (registry ?s)
             (JObject (AList.delete ''bitnet_b1_58-3B'' [(''bitnet_b1_58-3B'', ?r)]))
           = JObject [(''models'', JObject [])]"
    by (simp add: with_models_def)
  show ?thesis
    using a b c unfolding d by simp
qed

text \<open>
  C6, as claimed: the installed models after a successful download of X and a
  successful removal of X's name are those before the download. It fails when X's name
  was installed before: the download overwrites the record and the removal deletes it.
\<close>

theorem C6_round_trip_counterexample:
  "(let s0 = \<lparr>models_dir = ''models'', logs_dir = ''logs'', arch = ''x86_64'',
          registry = JObject [(''models'', JObject [(''bitnet_b1_58-3B'',
              JObject [(''model_id'', JString ''1bitLLM/bitnet_b1_58-3B''),
               (''model_name'', JString ''bitnet_b1_58-3B''), (''quant_type'', JString ''tl2''),
               (''path'', JString ''models/bitnet_b1_58-3B''),
               (''gguf_path'', JString ''models/bitnet_b1_58-3B/ggml-model-tl2.gguf''),
               (''description'', JString ''BitNet b1.58 3B model'')])])],
          persisted = JObject [(''models'', JObject [(''bitnet_b1_58-3B'',
              JObject [(''model_id'', JString ''1bitLLM/bitnet_b1_58-3B''),
               (''model_name'', JString ''bitnet_b1_58-3B''), (''quant_type'', JString ''tl2''),
               (''path'', JString ''models/bitnet_b1_58-3B''),
               (''gguf_path'', JString ''models/bitnet_b1_58-3B/ggml-model-tl2.gguf''),
               (''description'', JString ''BitNet b1.58 3B model'')])])]\<rparr>;
        ok = \<lparr>mkdir_error = None, log_open_error = None, fetch = FetchExit 0,
           gguf_exists = False, gguf_write_error = None, rmtree_error = None,
           save_error = None\<rparr>;
        downloaded = download_model ok ''1bitLLM/bitnet_b1_58-3B'' (Some ''i2_s'') s0;
        removed = remove_model ok ''bitnet_b1_58-3B'' (snd downloaded)
    in fst downloaded = Inr True
       \<and> fst removed = Inr True
       \<and> list_installed_models s0
           = Inr (JObject [(''bitnet_b1_58-3B'', JObject [(''model_id'', JString ''1bitLLM/bitnet_b1_58-3B''),
               (''model_name'', JString ''bitnet_b1_58-3B''), (''quant_type'', JString ''tl2''),
               (''path'', JString ''models/bitnet_b1_58-3B''),
               (''gguf_path'', JString ''models/bitnet_b1_58-3B/ggml-model-tl2.gguf''),
               (''description'', JString ''BitNet b1.58 3B model'')])])
       \<and> list_installed_models (snd removed) = Inr (JObject [])
       \<and> list_installed_models (snd removed) \<noteq> list_installed_models s0)"
proof -
  have m: "map_of SUPPORTED_MODELS ''1bitLLM/bitnet_b1_58-3B''
      = Some \<lparr>entry_model_name = ''bitnet_b1_58-3B'',
               entry_description = ''BitNet b1.58 3B model''\<rparr>"
    by (simp add: SUPPORTED_MODELS_def)
  have q: "map_of SUPPORTED_QUANT_TYPES ''x86_64'' = Some [''i2_s'', ''tl2'']"
    by (simp add: SUPPORTED_QUANT_TYPES_def)
  show ?thesis
    unfolding Let_def download_model_def m
    by (simp add: q run_command_def save_registry_def remove_model_def
          list_installed_models_def py_getitem_def py_setitem_def py_contains_def
          py_delitem_def with_models_def)
qed

text \<open>
  C6, amended: when X's canonical name is not installed before the download, the
  installed models after a successful download of X (with any quantization type) and a
  successful removal of that name are exactly those before the download, and so is the
  whole registry.
\<close>

theorem C6_round_trip:
  assumes "map_of SUPPORTED_MODELS mid = Some entry"
    and "list_installed_models s0 = Inr ms"
    and "py_contains ms (entry_model_name entry) = Inr False"
    and "download_model e1 mid qt s0 = (Inr True, s1)"
    and "remove_model e2 (entry_model_name entry) s1 = (Inr True, s2)"
  shows "list_installed_models s2 = list_installed_models s0 \<and> registry s2 = registry s0"
proof -
  let ?name = "entry_model_name entry"
  obtain kvs where k: "registry s0 = JObject kvs" "map_of kvs ''models'' = Some ms"
    using installed_models_shape [OF assms(2)] by blast
  have g0: "py_getitem (registry s0) ''models'' = Inr ms"
    using assms(2) by (simp add: list_installed_models_def)
  obtain rec ms' where d: "py_setitem ms ?name rec = Inr ms'"
      "registry s1 = with_models (registry s0) ms'"
    using assms(1,4) g0
    by (auto simp: download_model_def save_registry_cases Let_def
             split: option.splits if_splits sum.splits list.splits bool.splits)
  obtain kvl where l: "ms = JObject kvl" "ms' = JObject (AList.update ?name rec kvl)"
    using d(1) by (auto simp: py_setitem_def split: json.splits)
  have fresh: "?name \<notin> fst ` set kvl"
    using assms(3) l(1) by (simp add: py_contains_def map_of_eq_None_iff)
  have g1: "py_getitem (registry s1) ''models'' = Inr ms'"
    unfolding d(2) using k(1) by (rule with_models_lookup)
  have "registry s2
      = with_models (registry s1) (JObject (AList.delete ?name (AList.update ?name rec kvl)))"
    using assms(5) g1 l(2)
    by (auto simp: remove_model_def save_registry_cases py_contains_def py_getitem_def
          py_delitem_def update_conv'
          split: sum.splits option.splits bool.splits if_splits)
  also have "AList.delete ?name (AList.update ?name rec kvl) = kvl"
    using fresh by (simp add: delete_update_same)
  also have "with_models (registry s1) (JObject kvl) = JObject kvs"
    using k l(1) by (simp add: d(2) with_models_def update_triv)
  finally have "registry s2 = registry s0"
    using k(1) by simp
  then show ?thesis
    by (simp add: list_installed_models_def)
qed

theorem C6_round_trip_witness:
  "(let s0 = \<lparr>models_dir = ''models'', logs_dir = ''logs'', arch = ''x86_64'',
          registry = JObject [(''models'', JObject [])],
          persisted = JObject [(''models'', JObject [])]\<rparr>;
        ok = \<lparr>mkdir_error = None, log_open_error = None, fetch = FetchExit 0,
           gguf_exists = False, gguf_write_error = None, rmtree_error = None,
           save_error = None\<rparr>;
        downloaded = download_model ok ''1bitLLM/bitnet_b1_58-3B'' None s0;
        removed = remove_model ok ''bitnet_b1_58-3B'' (snd downloaded)
    in fst downloaded = Inr True
       \<and> list_installed_models (snd downloaded)
           = Inr (JObject [(''bitnet_b1_58-3B'', JObject [(''model_id'', JString ''1bitLLM/bitnet_b1_58-3B''),
               (''model_name'', JString ''bitnet_b1_58-3B''), (''quant_type'', JString ''i2_s''),
               (''path'', JString ''models/bitnet_b1_58-3B''),
               (''gguf_path'', JString ''models/bitnet_b1_58-3B/ggml-model-i2_s.gguf''),
               (''description'', JString ''BitNet b1.58 3B model'')])])
       \<and> fst removed = Inr True
       \<and> list_installed_models (snd removed) = list_installed_models s0)"
proof -
  define s0 where "s0 = \<lparr>models_dir = ''models'', logs_dir = ''logs'', arch = ''x86_64'',
          registry = JObject [(''models'', JObject [])],
          persisted = JObject [(''models'', JObject [])]\<rparr>"
  define ok where "ok = \<lparr>mkdir_error = None, log_open_error = None, fetch = FetchExit 0,
           gguf_exists = False, gguf_write_error = None, rmtree_error = None,
           save_error = None\<rparr>"
  define entry where "entry = \<lparr>entry_model_name = ''bitnet_b1_58-3B'',
               entry_description = ''BitNet b1.58 3B model''\<rparr>"
  define downloaded where "downloaded = download_model ok ''1bitLLM/bitnet_b1_58-3B'' None s0"
  define removed where "removed = remove_model ok ''bitnet_b1_58-3B'' (snd downloaded)"
  have m: "map_of SUPPORTED_MODELS ''1bitLLM/bitnet_b1_58-3B'' = Some entry"
    by (simp add: SUPPORTED_MODELS_def entry_def)
  have q: "map_of SUPPORTED_QUANT_TYPES ''x86_64'' = Some [''i2_s'', ''tl2'']"
    by (simp add: SUPPORTED_QUANT_TYPES_def)
  have inst: "list_installed_models s0 = Inr (JObject [])"
    by (simp add: s0_def list_installed_models_def py_getitem_def)
  have fresh: "py_contains (JObject []) (entry_model_name entry) = Inr False"
    by (simp add: py_contains_def)
  have d: "fst downloaded = Inr True"
    unfolding downloaded_def download_model_def m
    by (simp add: q run_command_def save_registry_def s0_def ok_def entry_def Let_def
          py_getitem_def py_setitem_def)
  have rec: "list_installed_models (snd downloaded)
           = Inr (JObject [(''bitnet_b1_58-3B'', JObject [(''model_id'', JString ''1bitLLM/bitnet_b1_58-3B''),
               (''model_name'', JString ''bitnet_b1_58-3B''), (''quant_type'', JString ''i2_s''),
               (''path'', JString ''models/bitnet_b1_58-3B''),
               (''gguf_path'', JString ''models/bitnet_b1_58-3B/ggml-model-i2_s.gguf''),
               (''description'', JString ''BitNet b1.58 3B model'')])])"
    unfolding downloaded_def download_model_def m
    by (simp add: q run_command_def save_registry_def s0_def ok_def entry_def path_join_def
          Let_def suffix_to_prefix py_getitem_def py_setitem_def with_models_def
          list_installed_models_def)
  have r: "fst removed = Inr True"
    unfolding removed_def remove_model_def
    using rec
    by (simp add: list_installed_models_def save_registry_def ok_def py_contains_def
          py_getitem_def py_delitem_def)
  have "list_installed_models (snd removed) = list_installed_models s0"
    using C6_round_trip [of "''1bitLLM/bitnet_b1_58-3B''" entry s0 "JObject []" ok None
        "snd downloaded" ok "snd removed"] m inst fresh d r
    by (simp add: downloaded_def removed_def entry_def prod_eq_iff)
  then show ?thesis
    using d rec r unfolding Let_def s0_def ok_def downloaded_def removed_def by blast
qed

text \<open>
  C7, as claimed: loading never raises, whatever the state of the registry file. It
  fails for a file that exists and cannot be opened, and for one whose bytes are not
  text: the exception is not \<open>json.JSONDecodeError\<close> and reaches the caller.
\<close>

theorem C7_load_registry_counterexample:
  "load_registry (OpenRaises (OSError ''Permission denied'')) = Inl (OSError ''Permission denied'')
   \<and> load_registry (ReadRaises (UnicodeDecodeError ''invalid start byte''))
       = Inl (UnicodeDecodeError ''invalid start byte'')
   \<and> load_registry (ReadRaises (UnicodeDecodeError ''invalid start byte'')) \<noteq> Inr empty_registry"
  by (simp add: load_registry_def)

text \<open>
  C7, amended: when the registry file is missing, or its text is not valid JSON, loading
  returns the empty registry \<open>{"models": {}}\<close>; a document that parses is returned as it
  is; and loading raises exactly when opening or reading the file raises, with that
  exception.
\<close>

theorem C7_load_registry:
  "load_registry FileMissing = Inr empty_registry
   \<and> load_registry JSONDecodeError = Inr empty_registry
   \<and> load_registry (Document d) = Inr d
   \<and> (load_registry f = Inl x \<longleftrightarrow> f = OpenRaises x \<or> f = ReadRaises x)"
  by (cases f) (auto simp: load_registry_def)

section \<open>Properties of the process orchestrator\<close>

text \<open>
  C4. For every model path, prompt and generation parameters, in conversation mode
  and out of it, the argument vector that \<open>run_inference\<close> and \<open>stream_inference\<close>
  build holds the pair \<open>'-ngl', '0'\<close> (at positions 9 and 10); the command string of
  their mock branch holds the text \<open>-ngl 0\<close> as well.
\<close>

theorem C4_ngl_zero:
  "sublist [''-ngl'', ''0''] (run_inference_command cli model_path prompt g)
   \<and> sublist [''-ngl'', ''0''] (stream_inference_command cli model_path prompt g)
   \<and> take 2 (drop 9 (run_inference_command cli model_path prompt g)) = [''-ngl'', ''0'']
   \<and> take 2 (drop 9 (stream_inference_command cli model_path prompt g)) = [''-ngl'', ''0'']
   \<and> str_in '' -ngl 0 '' (run_inference_command_str cli model_path prompt g)
   \<and> str_in '' -ngl 0 '' (stream_inference_command_str cli model_path prompt g)"
proof -
  let ?pre = "[cli, ''-m'', model_path, ''-n'', str_int (n_predict g), ''-t'',
               str_int (threads g), ''-p'', prompt]"
  let ?post = "[''-c'', str_int (ctx_size g), ''--temp'', temperature g, ''-b'', ''1'']
               @ (if conversation g then [''-cnv''] else [])"
  have r: "run_inference_command cli model_path prompt g = ?pre @ [''-ngl'', ''0''] @ ?post"
    by (simp add: run_inference_command_def)
  have t: "stream_inference_command cli model_path prompt g = ?pre @ [''-ngl'', ''0''] @ ?post"
    by (simp add: stream_inference_command_def)
  let ?spre = "cli @ '' -m '' @ model_path @ '' -n '' @ str_int (n_predict g)
        @ '' -t '' @ str_int (threads g) @ '' -p '' @ [CHR 0x22] @ prompt @ [CHR 0x22]"
  let ?spost = "''-c '' @ str_int (ctx_size g) @ '' --temp '' @ temperature g @ '' -b 1''
        @ (if conversation g then '' -cnv'' else [])"
  have rs: "run_inference_command_str cli model_path prompt g = ?spre @ '' -ngl 0 '' @ ?spost"
    by (simp add: run_inference_command_str_def)
  have ts: "stream_inference_command_str cli model_path prompt g = ?spre @ '' -ngl 0 '' @ ?spost"
    by (simp add: stream_inference_command_str_def)
  have 1: "sublist [''-ngl'', ''0''] (run_inference_command cli model_path prompt g)"
    unfolding r by (rule sublist_appendI)
  have 2: "sublist [''-ngl'', ''0''] (stream_inference_command cli model_path prompt g)"
    unfolding t by (rule sublist_appendI)
  have 3: "take 2 (drop 9 (run_inference_command cli model_path prompt g)) = [''-ngl'', ''0'']"
    by (simp add: run_inference_command_def)
  have 4: "take 2 (drop 9 (stream_inference_command cli model_path prompt g)) = [''-ngl'', ''0'']"
    by (simp add: stream_inference_command_def)
  have 5: "str_in '' -ngl 0 '' (run_inference_command_str cli model_path prompt g)"
    unfolding rs str_in_def by (rule sublist_appendI)
  have 6: "str_in '' -ngl 0 '' (stream_inference_command_str cli model_path prompt g)"
    unfolding ts str_in_def by (rule sublist_appendI)
  show ?thesis using 1 2 3 4 5 6 by blast
qed

lemma run_inference_ignores_stderr:
  "run_inference s h (Completed rc out err) name prompt g
     = run_inference s h (Completed rc out err') name prompt g"
  by (simp add: run_inference_def split: sum.splits json.splits)

lemma run_inference_exit_1:
  "run_inference
      \<lparr>models_dir = ''models'', logs_dir = ''logs'', arch = ''x86_64'',
        registry = JObject [(''models'', JObject [(''m'', JObject
            [(''model_id'', JString ''org/m''), (''model_name'', JString ''m''),
             (''quant_type'', JString ''i2_s''), (''path'', JString ''models/m''),
             (''gguf_path'', JString ''models/m/ggml-model-i2_s.gguf''),
             (''description'', JString ''d'')])])],
        persisted = JObject [(''models'', JObject [])]\<rparr>
      \<lparr>llama_cli = ''build/bin/llama-cli'', signals = []\<rparr>
      (Completed 1 [] ''model file is corrupt'')
      ''m'' ''Hi''
      \<lparr>n_predict = 128, threads = 4, ctx_size = 2048, temperature = ''0.8'', conversation = False\<rparr>
    = Inl (RuntimeError ''Error running inference: Command '['build/bin/llama-cli', '-m', 'models/m/ggml-model-i2_s.gguf', '-n', '128', '-t', '4', '-p', 'Hi', '-ngl', '0', '-c', '2048', '--temp', '0.8', '-b', '1']' returned non-zero exit status 1.'')"
  by code_simp

lemma stderr_not_in_message:
  "\<not> str_in ''model file is corrupt'' ''Error running inference: Command '['build/bin/llama-cli', '-m', 'models/m/ggml-model-i2_s.gguf', '-n', '128', '-t', '4', '-p', 'Hi', '-ngl', '0', '-c', '2048', '--temp', '0.8', '-b', '1']' returned non-zero exit status 1.''"
  by code_simp

text \<open>
  C1. The claim: when the inference binary exits with a non-zero code, \<open>run_inference\<close>
  raises an error that holds the captured stderr text. In the code the error raised
  does not depend on the stderr text at all: for the model \<open>m\<close>, the prompt \<open>Hi\<close> and a
  process that exits with code 1 and the stderr \<open>model file is corrupt\<close>, the
  \<open>RuntimeError\<close> holds the command and the exit status, and the stderr text is no
  part of its message.
\<close>

theorem C1_run_inference_error:
  "run_inference s h (Completed rc out err) name prompt g
     = run_inference s h (Completed rc out err') name prompt g
   \<and> run_inference
      \<lparr>models_dir = ''models'', logs_dir = ''logs'', arch = ''x86_64'',
        registry = JObject [(''models'', JObject [(''m'', JObject
            [(''model_id'', JString ''org/m''), (''model_name'', JString ''m''),
             (''quant_type'', JString ''i2_s''), (''path'', JString ''models/m''),
             (''gguf_path'', JString ''models/m/ggml-model-i2_s.gguf''),
             (''description'', JString ''d'')])])],
        persisted = JObject [(''models'', JObject [])]\<rparr>
      \<lparr>llama_cli = ''build/bin/llama-cli'', signals = []\<rparr>
      (Completed 1 [] ''model file is corrupt'')
      ''m'' ''Hi''
      \<lparr>n_predict = 128, threads = 4, ctx_size = 2048, temperature = ''0.8'', conversation = False\<rparr>
    = Inl (RuntimeError ''Error running inference: Command '['build/bin/llama-cli', '-m', 'models/m/ggml-model-i2_s.gguf', '-n', '128', '-t', '4', '-p', 'Hi', '-ngl', '0', '-c', '2048', '--temp', '0.8', '-b', '1']' returned non-zero exit status 1.'')
   \<and> \<not> str_in ''model file is corrupt'' ''Error running inference: Command '['build/bin/llama-cli', '-m', 'models/m/ggml-model-i2_s.gguf', '-n', '128', '-t', '4', '-p', 'Hi', '-ngl', '0', '-c', '2048', '--temp', '0.8', '-b', '1']' returned non-zero exit status 1.''"
  using run_inference_ignores_stderr [of s h rc out err name prompt g err']
    run_inference_exit_1 stderr_not_in_message
  by blast

section \<open>Properties of the one-shot reply\<close>

lemma split_from_nonempty: "split_from sep cur s \<noteq> []"
  by (induction sep cur s rule: split_from.induct) auto

lemma last_split_none:
  "\<forall>j. \<not> prefix sep (drop j s) \<Longrightarrow> last (split_from sep cur s) = cur @ s"
proof (induction sep cur s rule: split_from.induct)
  case (1 sep cur)
  show ?case by simp
next
  case (2 sep cur c cs)
  have np: "\<not> prefix sep (c # cs)" using "2.prems" [rule_format, of 0] by simp
  have "\<forall>j. \<not> prefix sep (drop j cs)"
  proof
    fix j show "\<not> prefix sep (drop j cs)" using "2.prems" [rule_format, of "Suc j"] by simp
  qed
  then have "last (split_from sep (cur @ [c]) cs) = (cur @ [c]) @ cs"
    using "2.IH"(2) np by blast
  then show ?case using np by simp
qed

lemma last_split_some:
  assumes "sep \<noteq> []" and "no_overlap sep"
    and "prefix sep (drop i s)" and "\<forall>j > i. \<not> prefix sep (drop j s)"
  shows "last (split_from sep cur s) = drop (i + length sep) s"
  using assms
proof (induction sep cur s arbitrary: i rule: split_from.induct)
  case (1 sep cur)
  then show ?case by simp
next
  case (2 sep cur c cs)
  show ?case
  proof (cases "prefix sep (c # cs)")
    case True
    define rest where "rest = drop (length sep) (c # cs)"
    have s: "c # cs = sep @ rest"
      using True by (auto simp: rest_def prefix_def)
    have step: "last (split_from sep cur (c # cs)) = last (split_from sep [] rest)"
      using True "2.prems"(1) split_from_nonempty [of sep "[]" rest] by (simp add: rest_def)
    show ?thesis
    proof (cases "i = 0")
      case i0: True
      have "\<forall>j. \<not> prefix sep (drop j rest)"
      proof
        fix j
        have "drop (length sep + j) (c # cs) = drop j rest" by (simp add: s)
        moreover have "length sep + j > i" using i0 "2.prems"(1) by simp
        ultimately show "\<not> prefix sep (drop j rest)" using "2.prems"(4) by metis
      qed
      then have "last (split_from sep [] rest) = rest" using last_split_none [of sep rest "[]"] by simp
      then show ?thesis using step i0 by (simp add: rest_def)
    next
      case ipos: False
      have ige: "length sep \<le> i"
      proof (rule ccontr)
        assume "\<not> length sep \<le> i"
        then have "0 < i \<and> i < length sep" using ipos by simp
        moreover have "drop i (c # cs) = drop i sep @ rest" using \<open>\<not> length sep \<le> i\<close> by (simp add: s)
        ultimately show False using "2.prems"(2,3) unfolding no_overlap_def by metis
      qed
      define k where "k = i - length sep"
      have ik: "i = length sep + k" using ige by (simp add: k_def)
      have dk: "\<And>j. drop (length sep + j) (c # cs) = drop j rest" by (simp add: s)
      have p: "prefix sep (drop k rest)" using "2.prems"(3) dk [of k] ik by simp
      have l: "\<forall>j > k. \<not> prefix sep (drop j rest)"
      proof (intro allI impI)
        fix j assume "k < j"
        then have "i < length sep + j" using ik by simp
        then show "\<not> prefix sep (drop j rest)" using "2.prems"(4) dk [of j] by metis
      qed
      have "last (split_from sep [] rest) = drop (k + length sep) rest"
        using "2.IH"(1) [of k] True "2.prems"(1,2) p l by (simp add: rest_def)
      also have "\<dots> = drop (i + length sep) (c # cs)"
        using dk [of "k + length sep"] ik by (simp add: add.commute)
      finally show ?thesis using step by simp
    qed
  next
    case False
    have "i \<noteq> 0"
    proof
      assume "i = 0"
      with False "2.prems"(3) show False by simp
    qed
    then obtain k where ik: "i = Suc k" by (cases i) auto
    have p: "prefix sep (drop k cs)" using "2.prems"(3) ik by simp
    have l: "\<forall>j > k. \<not> prefix sep (drop j cs)"
    proof (intro allI impI)
      fix j assume "k < j"
      then have "i < Suc j" using ik by simp
      then show "\<not> prefix sep (drop j cs)" using "2.prems"(4) [rule_format, of "Suc j"] by simp
    qed
    have "last (split_from sep (cur @ [c]) cs) = drop (k + length sep) cs"
      using "2.IH"(2) [of k] False "2.prems"(1,2) p l by blast
    then show ?thesis using False ik by simp
  qed
qed

lemma marker_no_overlap: "no_overlap ''Assistant: ''"
  unfolding no_overlap_def
proof (intro allI impI)
  fix j :: nat and rest :: string
  assume "0 < j \<and> j < length ''Assistant: ''"
  then have "j = 1 \<or> j = 2 \<or> j = 3 \<or> j = 4 \<or> j = 5 \<or> j = 6 \<or> j = 7 \<or> j = 8 \<or> j = 9 \<or> j = 10"
    by (simp) arith
  then show "\<not> prefix ''Assistant: '' (drop j ''Assistant: '' @ rest)"
    by (elim disjE) simp_all
qed

lemma reply_after_last_marker:
  assumes "prefix ''Assistant: '' (drop i raw)"
    and "\<forall>j > i. \<not> prefix ''Assistant: '' (drop j raw)"
  shows "last (str_split ''Assistant: '' raw) = drop (i + length ''Assistant: '') raw"
proof -
  have ne: "''Assistant: '' \<noteq> []" by simp
  show ?thesis
    unfolding str_split_def by (rule last_split_some [OF ne marker_no_overlap assms])
qed

lemma reply_without_marker:
  "\<forall>j. \<not> prefix ''Assistant: '' (drop j raw) \<Longrightarrow> last (str_split ''Assistant: '' raw) = raw"
  using last_split_none [of "''Assistant: ''" raw "[]"] by (simp add: str_split_def)

lemma example_reply:
  "str_strip (last (str_split ''Assistant: '' ''Hi\<newline>Assistant: Hello there'')) = ''Hello there''"
  by code_simp

text \<open>
  C8. For every raw output and model name, the content of \<open>choices[0].message\<close> of
  the completion that \<open>chat_completion\<close> returns is the raw output behind the last
  occurrence of \<open>"Assistant: "\<close> (the occurrence at index \<open>i\<close> with none at a later
  index), stripped of surrounding whitespace; for the raw text
  \<open>"Hi\nAssistant: Hello there"\<close> it is \<open>"Hello there"\<close>. (A raw output with no
  occurrence gives the whole output, stripped.)
\<close>

theorem C8_parse_one_shot:
  "(run_inference s h outcome name (chat_completion_prompt messages) (g\<lparr>conversation := True\<rparr>)
        = Inr raw
      \<and> prefix ''Assistant: '' (drop i raw) \<and> (\<forall>j > i. \<not> prefix ''Assistant: '' (drop j raw)) \<longrightarrow>
      chat_completion s h outcome now name messages g
        = Inr \<lparr>envelope_id = ''chat-'' @ name, object = ''chat.completion'', created = now,
               model = name,
               choices = [\<lparr>index = 0,
                           body = Message \<lparr>role = ''assistant'',
                                           content = str_strip (drop (i + length ''Assistant: '') raw)\<rparr>,
                           finish_reason = Some ''stop''\<rparr>]\<rparr>)
   \<and> (run_inference s h outcome name (chat_completion_prompt messages) (g\<lparr>conversation := True\<rparr>)
        = Inr raw
      \<and> (\<forall>j. \<not> prefix ''Assistant: '' (drop j raw)) \<longrightarrow>
      chat_completion s h outcome now name messages g
        = Inr \<lparr>envelope_id = ''chat-'' @ name, object = ''chat.completion'', created = now,
               model = name,
               choices = [\<lparr>index = 0,
                           body = Message \<lparr>role = ''assistant'', content = str_strip raw\<rparr>,
                           finish_reason = Some ''stop''\<rparr>]\<rparr>)
   \<and> (get_model_path s ''m'' = Inr (JString p) \<longrightarrow>
      chat_completion s h (Completed 0 ''Hi\<newline>Assistant: Hello there'' err) now ''m'' messages g
        = Inr \<lparr>envelope_id = ''chat-m'', object = ''chat.completion'', created = now,
               model = ''m'',
               choices = [\<lparr>index = 0,
                           body = Message \<lparr>role = ''assistant'', content = ''Hello there''\<rparr>,
                           finish_reason = Some ''stop''\<rparr>]\<rparr>)"
proof (intro conjI impI)
  assume a: "run_inference s h outcome name (chat_completion_prompt messages) (g\<lparr>conversation := True\<rparr>)
        = Inr raw
      \<and> prefix ''Assistant: '' (drop i raw) \<and> (\<forall>j > i. \<not> prefix ''Assistant: '' (drop j raw))"
  then show "chat_completion s h outcome now name messages g
        = Inr \<lparr>envelope_id = ''chat-'' @ name, object = ''chat.completion'', created = now,
               model = name,
               choices = [\<lparr>index = 0,
                           body = Message \<lparr>role = ''assistant'',
                                           content = str_strip (drop (i + length ''Assistant: '') raw)\<rparr>,
                           finish_reason = Some ''stop''\<rparr>]\<rparr>"
    using reply_after_last_marker [of i raw] by (simp add: chat_completion_def)
next
  assume a: "run_inference s h outcome name (chat_completion_prompt messages) (g\<lparr>conversation := True\<rparr>)
        = Inr raw
      \<and> (\<forall>j. \<not> prefix ''Assistant: '' (drop j raw))"
  then show "chat_completion s h outcome now name messages g
        = Inr \<lparr>envelope_id = ''chat-'' @ name, object = ''chat.completion'', created = now,
               model = name,
               choices = [\<lparr>index = 0,
                           body = Message \<lparr>role = ''assistant'', content = str_strip raw\<rparr>,
                           finish_reason = Some ''stop''\<rparr>]\<rparr>"
    using reply_without_marker [of raw] by (simp add: chat_completion_def)
next
  assume "get_model_path s ''m'' = Inr (JString p)"
  then have "run_inference s h (Completed 0 ''Hi\<newline>Assistant: Hello there'' err) ''m''
               (chat_completion_prompt messages) (g\<lparr>conversation := True\<rparr>)
             = Inr ''Hi\<newline>Assistant: Hello there''"
    by (simp add: run_inference_def)
  then show "chat_completion s h (Completed 0 ''Hi\<newline>Assistant: Hello there'' err) now ''m'' messages g
        = Inr \<lparr>envelope_id = ''chat-m'', object = ''chat.completion'', created = now,
               model = ''m'',
               choices = [\<lparr>index = 0,
                           body = Message \<lparr>role = ''assistant'', content = ''Hello there''\<rparr>,
                           finish_reason = Some ''stop''\<rparr>]\<rparr>"
    using example_reply by (simp add: chat_completion_def)
qed


theorem C8_parse_one_shot_witness:
  "prefix ''Assistant: '' (drop 26 ''User: Hi\<newline>\<newline>Assistant: old\<newline>\<newline>Assistant:  4 \<newline>'')
   \<and> chat_completion
        \<lparr>models_dir = ''models'', logs_dir = ''logs'', arch = ''x86_64'',
          registry = JObject [(''models'', JObject [(''m'', JObject
            [(''model_id'', JString ''org/m''), (''model_name'', JString ''m''),
             (''quant_type'', JString ''i2_s''), (''path'', JString ''models/m''),
             (''gguf_path'', JString ''models/m/ggml-model-i2_s.gguf''),
             (''description'', JString ''d'')])])],
        persisted = JObject [(''models'', JObject [])]\<rparr>
        \<lparr>llama_cli = ''build/bin/llama-cli'', signals = []\<rparr>
        (Completed 0 ''User: Hi\<newline>\<newline>Assistant: old\<newline>\<newline>Assistant:  4 \<newline>'' [])
        1700000000 ''m'' [\<lparr>role = ''user'', content = ''Hi''\<rparr>]
        \<lparr>n_predict = 128, threads = 4, ctx_size = 2048, temperature = ''0.8'', conversation = False\<rparr>
      = Inr \<lparr>envelope_id = ''chat-m'', object = ''chat.completion'', created = 1700000000,
             model = ''m'',
             choices = [\<lparr>index = 0,
                         body = Message \<lparr>role = ''assistant'', content = ''4''\<rparr>,
                         finish_reason = Some ''stop''\<rparr>]\<rparr>"
proof -
  let ?raw = "''User: Hi\<newline>\<newline>Assistant: old\<newline>\<newline>Assistant:  4 \<newline>''"
  let ?s = "\<lparr>models_dir = ''models'', logs_dir = ''logs'', arch = ''x86_64'',
          registry = JObject [(''models'', JObject [(''m'', JObject
            [(''model_id'', JString ''org/m''), (''model_name'', JString ''m''),
             (''quant_type'', JString ''i2_s''), (''path'', JString ''models/m''),
             (''gguf_path'', JString ''models/m/ggml-model-i2_s.gguf''),
             (''description'', JString ''d'')])])],
        persisted = JObject [(''models'', JObject [])]\<rparr>"
  let ?h = "\<lparr>llama_cli = ''build/bin/llama-cli'', signals = []\<rparr>"
  let ?g = "\<lparr>n_predict = 128, threads = 4, ctx_size = 2048, temperature = ''0.8'',
            conversation = False\<rparr>"
  let ?ms = "[\<lparr>role = ''user'', content = ''Hi''\<rparr>]"
  have occ: "prefix ''Assistant: '' (drop 26 ?raw)" by simp
  have noA: "CHR ''A'' \<notin> set (drop 27 ?raw)" by simp
  have later: "\<forall>j > 26. \<not> prefix ''Assistant: '' (drop j ?raw)"
  proof (intro allI impI notI)
    fix j :: nat
    assume j: "26 < j" and p: "prefix ''Assistant: '' (drop j ?raw)"
    have "CHR ''A'' \<in> set (drop j ?raw)"
      using p by (auto simp: prefix_def)
    moreover have "set (drop j ?raw) \<subseteq> set (drop 27 ?raw)"
      using j by (intro set_drop_subset_set_drop) simp
    ultimately show False using noA by blast
  qed
  have run: "run_inference ?s ?h (Completed 0 ?raw []) ''m'' (chat_completion_prompt ?ms)
               (?g\<lparr>conversation := True\<rparr>) = Inr ?raw"
    by (simp add: run_inference_def get_model_path_def py_getitem_def py_contains_def)
  have stripped: "str_strip (drop (26 + length ''Assistant: '') ?raw) = ''4''"
    by code_simp
  show ?thesis
    using C8_parse_one_shot [of ?s ?h "Completed 0 ?raw []" "''m''" ?ms ?g ?raw 26 1700000000]
      occ later run stripped
    by simp
qed

section \<open>Properties of the streamed reply\<close>

text \<open>
  C2. The claim: for the chunks \<open>"Hi\n"\<close>, \<open>"Assistant: "\<close>, \<open>"Hel"\<close>, \<open>"lo"\<close> the
  envelopes are the deltas \<open>"Hel"\<close> and \<open>"lo"\<close> and the final chunk, with no envelope
  for the chunk \<open>"Assistant: "\<close>, and the text before the marker is kept out of the
  stream. In the code the handler tests the buffer after it has appended the chunk and
  emits the chunk itself, so the chunk that holds the marker is emitted as a delta;
  with an earlier assistant turn in the echoed prompt, the rest of the echoed prompt is
  emitted as well.
\<close>

theorem C2_stream_emits_marker_chunk:
  "delta_contents (snd (stream_chat_completion
      \<lparr>models_dir = ''models'', logs_dir = ''logs'', arch = ''x86_64'',
        registry = JObject [(''models'', JObject [(''m'', JObject
            [(''model_id'', JString ''org/m''), (''model_name'', JString ''m''),
             (''quant_type'', JString ''i2_s''), (''path'', JString ''models/m''),
             (''gguf_path'', JString ''models/m/ggml-model-i2_s.gguf''),
             (''description'', JString ''d'')])])],
        persisted = JObject [(''models'', JObject [])]\<rparr>
      \<lparr>llama_cli = ''build/bin/llama-cli'', signals = []\<rparr>
      (Streamed [''Hi\<newline>'', ''Assistant: '', ''Hel'', ''lo''] 0 [])
      (\<lambda>k. 1700000000) ''m'' [\<lparr>role = ''user'', content = ''Hi''\<rparr>]
      \<lparr>n_predict = 128, threads = 4, ctx_size = 2048, temperature = ''0.8'', conversation = False\<rparr>))
    = [Some ''Assistant: '', Some ''Hel'', Some ''lo'', None]
   \<and> delta_contents (snd (stream_chat_completion
      \<lparr>models_dir = ''models'', logs_dir = ''logs'', arch = ''x86_64'',
        registry = JObject [(''models'', JObject [(''m'', JObject
            [(''model_id'', JString ''org/m''), (''model_name'', JString ''m''),
             (''quant_type'', JString ''i2_s''), (''path'', JString ''models/m''),
             (''gguf_path'', JString ''models/m/ggml-model-i2_s.gguf''),
             (''description'', JString ''d'')])])],
        persisted = JObject [(''models'', JObject [])]\<rparr>
      \<lparr>llama_cli = ''build/bin/llama-cli'', signals = []\<rparr>
      (Streamed [''Hi\<newline>'', ''Assistant: '', ''Hel'', ''lo''] 0 [])
      (\<lambda>k. 1700000000) ''m'' [\<lparr>role = ''user'', content = ''Hi''\<rparr>]
      \<lparr>n_predict = 128, threads = 4, ctx_size = 2048, temperature = ''0.8'', conversation = False\<rparr>))
    \<noteq> [Some ''Hel'', Some ''lo'', None]
   \<and> delta_contents (snd (stream_chat_completion
      \<lparr>models_dir = ''models'', logs_dir = ''logs'', arch = ''x86_64'',
        registry = JObject [(''models'', JObject [(''m'', JObject
            [(''model_id'', JString ''org/m''), (''model_name'', JString ''m''),
             (''quant_type'', JString ''i2_s''), (''path'', JString ''models/m''),
             (''gguf_path'', JString ''models/m/ggml-model-i2_s.gguf''),
             (''description'', JString ''d'')])])],
        persisted = JObject [(''models'', JObject [])]\<rparr>
      \<lparr>llama_cli = ''build/bin/llama-cli'', signals = []\<rparr>
      (Streamed [''User: 2+2?\<newline>'', ''\<newline>'', ''Assistant: 4\<newline>'', ''\<newline>'',
                 ''User: Sure?\<newline>'', ''\<newline>'', ''Assistant: \<newline>'', ''Yes\<newline>''] 0 [])
      (\<lambda>k. 1700000000) ''m''
      [\<lparr>role = ''user'', content = ''2+2?''\<rparr>, \<lparr>role = ''assistant'', content = ''4''\<rparr>,
       \<lparr>role = ''user'', content = ''Sure?''\<rparr>]
      \<lparr>n_predict = 128, threads = 4, ctx_size = 2048, temperature = ''0.8'', conversation = False\<rparr>))
    = [Some ''Assistant: 4\<newline>'', Some ''\<newline>'', Some ''User: Sure?\<newline>'', Some ''\<newline>'',
       Some ''Assistant: \<newline>'', Some ''Yes\<newline>'', None]"
proof -
  have 1: "delta_contents (snd (stream_chat_completion
      \<lparr>models_dir = ''models'', logs_dir = ''logs'', arch = ''x86_64'',
        registry = JObject [(''models'', JObject [(''m'', JObject
            [(''model_id'', JString ''org/m''), (''model_name'', JString ''m''),
             (''quant_type'', JString ''i2_s''), (''path'', JString ''models/m''),
             (''gguf_path'', JString ''models/m/ggml-model-i2_s.gguf''),
             (''description'', JString ''d'')])])],
        persisted = JObject [(''models'', JObject [])]\<rparr>
      \<lparr>llama_cli = ''build/bin/llama-cli'', signals = []\<rparr>
      (Streamed [''Hi\<newline>'', ''Assistant: '', ''Hel'', ''lo''] 0 [])
      (\<lambda>k. 1700000000) ''m'' [\<lparr>role = ''user'', content = ''Hi''\<rparr>]
      \<lparr>n_predict = 128, threads = 4, ctx_size = 2048, temperature = ''0.8'', conversation = False\<rparr>))
    = [Some ''Assistant: '', Some ''Hel'', Some ''lo'', None]"
    by code_simp
  have 2: "delta_contents (snd (stream_chat_completion
      \<lparr>models_dir = ''models'', logs_dir = ''logs'', arch = ''x86_64'',
        registry = JObject [(''models'', JObject [(''m'', JObject
            [(''model_id'', JString ''org/m''), (''model_name'', JString ''m''),
             (''quant_type'', JString ''i2_s''), (''path'', JString ''models/m''),
             (''gguf_path'', JString ''models/m/ggml-model-i2_s.gguf''),
             (''description'', JString ''d'')])])],
        persisted = JObject [(''models'', JObject [])]\<rparr>
      \<lparr>llama_cli = ''build/bin/llama-cli'', signals = []\<rparr>
      (Streamed [''User: 2+2?\<newline>'', ''\<newline>'', ''Assistant: 4\<newline>'', ''\<newline>'',
                 ''User: Sure?\<newline>'', ''\<newline>'', ''Assistant: \<newline>'', ''Yes\<newline>''] 0 [])
      (\<lambda>k. 1700000000) ''m''
      [\<lparr>role = ''user'', content = ''2+2?''\<rparr>, \<lparr>role = ''assistant'', content = ''4''\<rparr>,
       \<lparr>role = ''user'', content = ''Sure?''\<rparr>]
      \<lparr>n_predict = 128, threads = 4, ctx_size = 2048, temperature = ''0.8'', conversation = False\<rparr>))
    = [Some ''Assistant: 4\<newline>'', Some ''\<newline>'', Some ''User: Sure?\<newline>'', Some ''\<newline>'',
       Some ''Assistant: \<newline>'', Some ''Yes\<newline>'', None]"
    by code_simp
  show ?thesis
    using 1 2 by simp
qed

end
